theory Spec2Isabelle
  imports Main "HOL-Library.Word"
begin

section \<open>JavaScript values and the host environment\<close>

text \<open>
  The values the token code handles: what \<open>JSON.parse\<close> and \<open>localStorage\<close> give
  (null, booleans, numbers, strings, arrays, objects), \<open>undefined\<close>, and the
  \<open>Date\<close> objects that \<open>parseJWT\<close> attaches. Numbers are integers (token times
  are whole seconds and milliseconds); fractions, infinities and the rounding of doubles
  are outside the model; \<open>None\<close> stands for NaN where arithmetic can produce it. An
  object is the list of its own properties, each key once. No value is a function: the
  fields of the token manager only ever receive parsed JSON, storage strings and null.
\<close>

datatype jsval =
    JUndefined
  | JNull
  | JBool bool
  | JNum int
  | JStr string
  | JArr "jsval list"
  | JObj "(string \<times> jsval) list"
  | JDate "int option"

text \<open>ToBoolean: what \<open>if (v)\<close>, \<open>!v\<close> and \<open>a && b\<close> test.\<close>

fun truthy :: "jsval \<Rightarrow> bool" where
  "truthy JUndefined = False"
| "truthy JNull = False"
| "truthy (JBool b) = b"
| "truthy (JNum n) = (n \<noteq> 0)"
| "truthy (JStr s) = (s \<noteq> [])"
| "truthy (JArr xs) = True"
| "truthy (JObj kvs) = True"
| "truthy (JDate d) = True"

text \<open>
  The builtins of the browser that the code calls and that are not code of this
  repository. \<open>None\<close> is a thrown exception (\<open>atob\<close> on a malformed string,
  \<open>JSON.parse\<close> on malformed text, no SHA-256 implementation reachable) or NaN
  (\<open>coerce_num\<close>, the ToNumber conversion of strings, arrays and objects).
\<close>

record host =
  atob :: "string \<Rightarrow> string option"
  json_parse :: "string \<Rightarrow> jsval option"
  json_stringify :: "jsval \<Rightarrow> string"
  coerce_num :: "jsval \<Rightarrow> int option"
  to_str :: "jsval \<Rightarrow> string"
  to_iso :: "int \<Rightarrow> string"
  sha256 :: "8 word list \<Rightarrow> 8 word list option"

text \<open>ToNumber, with the host deciding strings, arrays, objects and dates.\<close>

definition to_number :: "host \<Rightarrow> jsval \<Rightarrow> int option" where
  "to_number h v =
     (case v of
        JNum n \<Rightarrow> Some n
      | JBool b \<Rightarrow> Some (if b then 1 else 0)
      | JNull \<Rightarrow> Some 0
      | JUndefined \<Rightarrow> None
      | JDate d \<Rightarrow> d
      | _ \<Rightarrow> coerce_num h v)"

text \<open>Comparisons and arithmetic on numbers that may be NaN: a comparison with NaN is false.\<close>

definition num_le :: "int option \<Rightarrow> int option \<Rightarrow> bool" where
  "num_le a b = (case (a, b) of (Some x, Some y) \<Rightarrow> x \<le> y | _ \<Rightarrow> False)"

definition num_gt :: "int option \<Rightarrow> int option \<Rightarrow> bool" where
  "num_gt a b = (case (a, b) of (Some x, Some y) \<Rightarrow> x > y | _ \<Rightarrow> False)"

definition num_sub :: "int option \<Rightarrow> int option \<Rightarrow> int option" where
  "num_sub a b = (case (a, b) of (Some x, Some y) \<Rightarrow> Some (x - y) | _ \<Rightarrow> None)"

definition num_times :: "int option \<Rightarrow> int \<Rightarrow> int option" where
  "num_times a k = map_option (\<lambda>x. x * k) a"

text \<open>\<open>Math.max(a, b)\<close> is NaN when an argument is.\<close>

definition math_max :: "int \<Rightarrow> int option \<Rightarrow> int option" where
  "math_max a b = map_option (max a) b"

text \<open>\<open>new Date(ms)\<close>: an invalid date for NaN and beyond 8.64e15 milliseconds.\<close>

definition new_Date :: "int option \<Rightarrow> jsval" where
  "new_Date ms =
     (case ms of
        None \<Rightarrow> JDate None
      | Some x \<Rightarrow> if \<bar>x\<bar> \<le> 8640000000000000 then JDate (Some x) else JDate None)"

definition getTime :: "jsval \<Rightarrow> int option" where
  "getTime d = (case d of JDate t \<Rightarrow> t | _ \<Rightarrow> None)"

text \<open>
  Reading a property, for the names the code reads (JWT claim names and response
  fields): an object's own property or \<open>undefined\<close>; a primitive or an array has none
  of these names, except that a string inherits the method
  \<open>String.prototype.sub\<close>, which \<open>prop_truthy\<close> accounts for.
\<close>

definition get_prop :: "jsval \<Rightarrow> string \<Rightarrow> jsval" where
  "get_prop v k =
     (case v of
        JObj kvs \<Rightarrow> (case map_of kvs k of Some x \<Rightarrow> x | None \<Rightarrow> JUndefined)
      | _ \<Rightarrow> JUndefined)"

definition prop_truthy :: "jsval \<Rightarrow> string \<Rightarrow> bool" where
  "prop_truthy v k = (case v of JStr s \<Rightarrow> k = ''sub'' | _ \<Rightarrow> truthy (get_prop v k))"

fun assign_prop :: "string \<Rightarrow> jsval \<Rightarrow> (string \<times> jsval) list \<Rightarrow> (string \<times> jsval) list" where
  "assign_prop k v [] = [(k, v)]"
| "assign_prop k v ((k', v') # kvs) =
     (if k' = k then (k, v) # kvs else (k', v') # assign_prop k v kvs)"

section \<open>JWTUtils (src/js/jwt-utils.js)\<close>

text \<open>\<open>token.split('.')\<close>.\<close>

fun split_dot :: "string \<Rightarrow> string list" where
  "split_dot [] = [[]]"
| "split_dot (c # cs) =
     (if c = CHR ''.'' then [] # split_dot cs
      else (case split_dot cs of p # ps \<Rightarrow> (c # p) # ps | [] \<Rightarrow> [[c]]))"

text \<open>The padding loop of \<open>base64UrlDecode\<close>: \<open>while (base64.length % 4) base64 += '='\<close>.\<close>

function pad4 :: "string \<Rightarrow> string" where
  "pad4 s = (if length s mod 4 \<noteq> 0 then pad4 (s @ ''='') else s)"
  by pat_completeness auto
termination
  by (relation "measure (\<lambda>s. 3 - (length s + 3) mod 4)") (auto, presburger)

definition base64UrlDecode :: "host \<Rightarrow> string \<Rightarrow> string option" where
  "base64UrlDecode h str =
     (let base64 = map (\<lambda>c. if c = CHR ''_'' then CHR ''/'' else c)
                     (map (\<lambda>c. if c = CHR ''-'' then CHR ''+'' else c) str)
      in atob h (pad4 base64))"

text \<open>
  The three \<open>if (parsed.x) parsed.xDate = new Date(parsed.x * 1000)\<close> of \<open>parseJWT\<close>.
  Only an object can have a truthy \<open>iat\<close>, \<open>exp\<close> or \<open>nbf\<close>.
\<close>

definition add_date :: "host \<Rightarrow> string \<Rightarrow> string \<Rightarrow> jsval \<Rightarrow> jsval" where
  "add_date h k kDate parsed =
     (case parsed of
        JObj kvs \<Rightarrow>
          if truthy (get_prop parsed k)
          then JObj (assign_prop kDate (new_Date (num_times (to_number h (get_prop parsed k)) 1000)) kvs)
          else parsed
      | _ \<Rightarrow> parsed)"

text \<open>
  \<open>parseJWT\<close>: \<open>None\<close> is the \<open>null\<close> it returns, also from its \<open>catch\<close>
  (\<open>JSON.parse\<close> throws; reading \<open>parsed.iat\<close> of \<open>null\<close> throws).
\<close>

definition parseJWT :: "host \<Rightarrow> jsval \<Rightarrow> jsval option" where
  "parseJWT h token =
     (case token of
        JStr t \<Rightarrow>
          if t = [] then None
          else
            (let parts = split_dot t in
             if length parts \<noteq> 3 then None
             else
               (case base64UrlDecode h (parts ! 1) of
                  None \<Rightarrow> None
                | Some decodedPayload \<Rightarrow>
                    if decodedPayload = [] then None
                    else
                      (case json_parse h decodedPayload of
                         None \<Rightarrow> None
                       | Some JNull \<Rightarrow> None
                       | Some JUndefined \<Rightarrow> None
                       | Some parsed \<Rightarrow>
                           Some (add_date h ''nbf'' ''nbfDate''
                                  (add_date h ''exp'' ''expDate''
                                    (add_date h ''iat'' ''iatDate'' parsed))))))
      | _ \<Rightarrow> None)"

text \<open>
  The messages \<open>validateJWT\<close> pushes, one constructor per message of the source:
  \<^item> \<open>TokenMissing\<close>: 'Token is missing'
  \<^item> \<open>TokenNotString\<close>: 'Token must be a string'
  \<^item> \<open>TokenNotThreeParts\<close>: 'Token must have 3 parts (header.payload.signature)'
  \<^item> \<open>PayloadParseFailed\<close>: 'Failed to parse token payload'
  \<^item> \<open>MissingRequiredClaims cs\<close>: 'Missing required claims: ' and \<open>cs\<close> joined by ', '
  \<^item> \<open>TokenExpired\<close>: 'Token has expired'
  \<^item> \<open>NoExpirationClaim\<close>: 'Token has no expiration claim'
  \<^item> \<open>NotYetValid\<close>: 'Token is not yet valid (nbf claim in future)'
  \<^item> \<open>ExpiresSoon\<close>: 'Token expires soon (less than 5 minutes)'
  \<^item> \<open>UnknownRole r\<close>: 'Unknown role: ' and \<open>r\<close>
  \<^item> \<open>ScopesNotArray\<close>: 'Scopes claim should be an array'
  \<^item> \<open>MissingSessionId\<close>: 'Token missing sessionId claim'
  \<^item> \<open>MissingJti\<close>: 'Token missing jti (JWT ID) claim'
\<close>

datatype message =
    TokenMissing
  | TokenNotString
  | TokenNotThreeParts
  | PayloadParseFailed
  | MissingRequiredClaims "string list"
  | TokenExpired
  | NoExpirationClaim
  | NotYetValid
  | ExpiresSoon
  | UnknownRole jsval
  | ScopesNotArray
  | MissingSessionId
  | MissingJti

record validation =
  valid :: bool
  errors :: "message list"
  warnings :: "message list"
  claims :: "jsval option"

definition requiredClaims :: "string list" where
  "requiredClaims = [''iss'', ''sub'', ''aud'', ''iat'', ''exp'']"

definition missingClaims :: "jsval \<Rightarrow> string list" where
  "missingClaims payload = filter (\<lambda>claim. \<not> prop_truthy payload claim) requiredClaims"

text \<open>\<open>now\<close> is \<open>Math.floor(Date.now() / 1000)\<close>, from the clock reading in milliseconds.\<close>

definition now_seconds :: "int \<Rightarrow> int" where
  "now_seconds now_ms = now_ms div 1000"

definition expiry_errors :: "host \<Rightarrow> int \<Rightarrow> jsval \<Rightarrow> message list" where
  "expiry_errors h now payload =
     (if truthy (get_prop payload ''exp'')
      then (if num_le (to_number h (get_prop payload ''exp'')) (Some now) then [TokenExpired] else [])
      else [NoExpirationClaim])"

definition expiry_warnings :: "host \<Rightarrow> int \<Rightarrow> jsval \<Rightarrow> message list" where
  "expiry_warnings h now payload =
     (if truthy (get_prop payload ''exp'')
      then (if num_le (to_number h (get_prop payload ''exp'')) (Some now) then []
            else if num_le (to_number h (get_prop payload ''exp'')) (Some (now + 300))
            then [ExpiresSoon] else [])
      else [])"

definition nbf_errors :: "host \<Rightarrow> int \<Rightarrow> jsval \<Rightarrow> message list" where
  "nbf_errors h now payload =
     (if truthy (get_prop payload ''nbf'')
      then (if num_gt (to_number h (get_prop payload ''nbf'')) (Some now) then [NotYetValid] else [])
      else [])"

definition advisory_warnings :: "jsval \<Rightarrow> message list" where
  "advisory_warnings payload =
     (if truthy (get_prop payload ''role'')
         \<and> get_prop payload ''role'' \<notin> set [JStr ''admin'', JStr ''customer'']
      then [UnknownRole (get_prop payload ''role'')] else [])
     @ (if truthy (get_prop payload ''scopes'')
           \<and> (case get_prop payload ''scopes'' of JArr xs \<Rightarrow> False | _ \<Rightarrow> True)
        then [ScopesNotArray] else [])
     @ (if \<not> truthy (get_prop payload ''sessionId'') then [MissingSessionId] else [])
     @ (if \<not> truthy (get_prop payload ''jti'') then [MissingJti] else [])"

text \<open>The checks of \<open>validateJWT\<close> once the payload is decoded (lines 122 to 173).\<close>

definition check_claims :: "host \<Rightarrow> int \<Rightarrow> jsval \<Rightarrow> validation" where
  "check_claims h now payload =
     (let errs = (if missingClaims payload \<noteq> []
                  then [MissingRequiredClaims (missingClaims payload)] else [])
                 @ expiry_errors h now payload
                 @ nbf_errors h now payload;
          warns = expiry_warnings h now payload @ advisory_warnings payload
      in \<lparr> valid = (errs = []), errors = errs, warnings = warns, claims = Some payload \<rparr>)"

definition rejected :: "message \<Rightarrow> validation" where
  "rejected m = \<lparr> valid = False, errors = [m], warnings = [], claims = None \<rparr>"

text \<open>
  \<open>validateJWT(token)\<close>, with the clock reading \<open>now_ms\<close> of \<open>Date.now()\<close>; the
  two readings of one call are taken to be equal.
\<close>

definition validateJWT :: "host \<Rightarrow> int \<Rightarrow> jsval \<Rightarrow> validation" where
  "validateJWT h now_ms token =
     (if \<not> truthy token then rejected TokenMissing
      else
        (case token of
           JStr t \<Rightarrow>
             if length (split_dot t) \<noteq> 3 then rejected TokenNotThreeParts
             else
               (case parseJWT h token of
                  None \<Rightarrow> rejected PayloadParseFailed
                | Some payload \<Rightarrow>
                    if \<not> truthy payload then rejected PayloadParseFailed
                    else check_claims h (now_seconds now_ms) payload)
         | _ \<Rightarrow> rejected TokenNotString))"

section \<open>PKCEHelper (src/unnamed/part_002, lines 634 to 870)\<close>

text \<open>The constructor's fields.\<close>

definition supportedMethods :: "string list" where
  "supportedMethods = [''S256'', ''plain'']"

definition charset :: string where
  "charset = ''ABCDEFGHIJKLMNOPQRSTUVWXYZabcdefghijklmnopqrstuvwxyz0123456789-._~''"

text \<open>
  The errors the helper throws:
  \<^item> \<open>VerifierLengthOutOfRange\<close>: 'Code verifier length must be between 43 and 128 characters'
  \<^item> \<open>VerifierRequired\<close>: 'Code verifier is required'
  \<^item> \<open>UnsupportedMethod m\<close>: 'Unsupported method: ' and \<open>m\<close>
  \<^item> \<open>UnknownMethod m\<close>: 'Unknown method: ' and \<open>m\<close>
  \<^item> \<open>NoCryptoImplementation\<close>: 'No crypto implementation available'
\<close>

datatype pkce_error =
    VerifierLengthOutOfRange
  | VerifierRequired
  | UnsupportedMethod string
  | UnknownMethod string
  | NoCryptoImplementation

text \<open>
  The random sources. \<open>web_crypto\<close> is the array \<open>crypto.getRandomValues\<close> fills,
  by index, or \<open>None\<close> when the Web Crypto call throws; \<open>math_random_index i\<close> is
  the value of \<open>Math.floor(Math.random() * this.charset.length)\<close> at the i-th draw of
  the fallback (a floating-point product, taken as its result).
\<close>

record random_source =
  web_crypto :: "(nat \<Rightarrow> 8 word) option"
  math_random_index :: "nat \<Rightarrow> nat"

text \<open>
  \<open>codeVerifier += this.charset[i]\<close>: an index past the end reads \<open>undefined\<close>,
  which \<open>+=\<close> appends as the text 'undefined'.
\<close>

definition charset_at :: "nat \<Rightarrow> string" where
  "charset_at i = (if i < length charset then [charset ! i] else ''undefined'')"

definition generateCodeVerifierFallback :: "random_source \<Rightarrow> nat \<Rightarrow> string" where
  "generateCodeVerifierFallback r n =
     concat (map (\<lambda>i. charset_at (math_random_index r i)) [0..<n])"

definition generateCodeVerifier :: "random_source \<Rightarrow> int \<Rightarrow> pkce_error + string" where
  "generateCodeVerifier r len =
     (if len < 43 \<or> len > 128 then Inl VerifierLengthOutOfRange
      else
        (case web_crypto r of
           Some randomValues \<Rightarrow>
             Inr (concat (map (\<lambda>i. charset_at (unat (randomValues i) mod length charset))
                            [0..<nat len]))
         | None \<Rightarrow> Inr (generateCodeVerifierFallback r (nat len))))"

text \<open>\<open>TextEncoder.encode\<close> on a string of code units below 256.\<close>

definition utf8_encode :: "string \<Rightarrow> 8 word list" where
  "utf8_encode s =
     concat (map (\<lambda>c. let n = (of_char c :: nat) in
                       if n < 128 then [of_nat n]
                       else [of_nat (192 + n div 64), of_nat (128 + n mod 64)]) s)"

text \<open>\<open>btoa\<close> on the binary string of a byte array (\<open>arrayBufferToBase64\<close>).\<close>

definition b64chars :: string where
  "b64chars = ''ABCDEFGHIJKLMNOPQRSTUVWXYZabcdefghijklmnopqrstuvwxyz0123456789+/''"

definition b64 :: "nat \<Rightarrow> char" where
  "b64 i = b64chars ! (i mod 64)"

fun arrayBufferToBase64 :: "8 word list \<Rightarrow> string" where
  "arrayBufferToBase64 [] = []"
| "arrayBufferToBase64 [a] =
     [b64 (unat a div 4), b64 ((unat a mod 4) * 16), CHR ''='', CHR ''='']"
| "arrayBufferToBase64 [a, b] =
     [b64 (unat a div 4), b64 ((unat a mod 4) * 16 + unat b div 16),
      b64 ((unat b mod 16) * 4), CHR ''='']"
| "arrayBufferToBase64 (a # b # c # rest) =
     [b64 (unat a div 4), b64 ((unat a mod 4) * 16 + unat b div 16),
      b64 ((unat b mod 16) * 4 + unat c div 64), b64 (unat c mod 64)]
     @ arrayBufferToBase64 rest"

definition base64urlEncode :: "8 word list \<Rightarrow> string" where
  "base64urlEncode buffer =
     filter (\<lambda>c. c \<noteq> CHR ''='')
       (map (\<lambda>c. if c = CHR ''/'' then CHR ''_'' else c)
         (map (\<lambda>c. if c = CHR ''+'' then CHR ''-'' else c) (arrayBufferToBase64 buffer)))"

text \<open>
  \<open>generateCodeChallengeS256\<close> with its Node.js fallback: both compute SHA-256 of the
  UTF-8 bytes; \<open>sha256 h\<close> is \<open>None\<close> when neither implementation is reachable.
\<close>

definition generateCodeChallengeS256 :: "host \<Rightarrow> string \<Rightarrow> pkce_error + string" where
  "generateCodeChallengeS256 h codeVerifier =
     (case sha256 h (utf8_encode codeVerifier) of
        Some hashBuffer \<Rightarrow> Inr (base64urlEncode hashBuffer)
      | None \<Rightarrow> Inl NoCryptoImplementation)"

definition generateCodeChallengePlain :: "string \<Rightarrow> pkce_error + string" where
  "generateCodeChallengePlain codeVerifier =
     (if codeVerifier = [] then Inl VerifierRequired else Inr codeVerifier)"

definition generateCodeChallenge :: "host \<Rightarrow> string \<Rightarrow> string \<Rightarrow> pkce_error + string" where
  "generateCodeChallenge h codeVerifier method =
     (if codeVerifier = [] then Inl VerifierRequired
      else if method \<notin> set supportedMethods then Inl (UnsupportedMethod method)
      else if method = ''S256'' then generateCodeChallengeS256 h codeVerifier
      else if method = ''plain'' then generateCodeChallengePlain codeVerifier
      else Inl (UnknownMethod method))"

definition verifyCodeChallenge :: "host \<Rightarrow> string \<Rightarrow> string \<Rightarrow> string \<Rightarrow> bool" where
  "verifyCodeChallenge h codeVerifier codeChallenge method =
     (if codeVerifier = [] \<or> codeChallenge = [] then False
      else
        (case generateCodeChallenge h codeVerifier method of
           Inr expectedChallenge \<Rightarrow> expectedChallenge = codeChallenge
         | Inl e \<Rightarrow> False))"

text \<open>
  \<open>validateCodeVerifier\<close>. Its messages: \<open>VerifierIsRequired\<close> 'Code verifier is
  required', \<open>VerifierTooShort n\<close>, \<open>VerifierTooLong n\<close>, \<open>ShorterThanRecommended\<close>
  (the warning below 64 characters), \<open>InvalidCharacters\<close> and \<open>AllowedCharacters\<close>
  (the two lines pushed when the character test fails).
\<close>

datatype pkce_message =
    VerifierIsRequired
  | VerifierTooShort nat
  | VerifierTooLong nat
  | ShorterThanRecommended
  | InvalidCharacters
  | AllowedCharacters

record verifier_validation =
  v_valid :: bool
  v_errors :: "pkce_message list"
  v_warnings :: "pkce_message list"

text \<open>The character class \<open>[A-Za-z0-9\-._~]\<close>.\<close>

definition unreserved :: "char \<Rightarrow> bool" where
  "unreserved c =
     (let n = (of_char c :: nat) in
      (65 \<le> n \<and> n \<le> 90) \<or> (97 \<le> n \<and> n \<le> 122) \<or> (48 \<le> n \<and> n \<le> 57)
      \<or> c = CHR ''-'' \<or> c = CHR ''.'' \<or> c = CHR ''_'' \<or> c = CHR ''~'')"

text \<open>\<open>/^[A-Za-z0-9\-._~]+$/.test(codeVerifier)\<close>.\<close>

definition validChars :: "string \<Rightarrow> bool" where
  "validChars s = (s \<noteq> [] \<and> list_all unreserved s)"

definition validateCodeVerifier :: "string \<Rightarrow> verifier_validation" where
  "validateCodeVerifier codeVerifier =
     (if codeVerifier = []
      then \<lparr> v_valid = False, v_errors = [VerifierIsRequired], v_warnings = [] \<rparr>
      else
        (let n = length codeVerifier;
             lengthErrors = (if n < 43 then [VerifierTooShort n]
                             else if n > 128 then [VerifierTooLong n] else []);
             lengthWarnings = (if 43 \<le> n \<and> n \<le> 128 \<and> n < 64
                               then [ShorterThanRecommended] else []);
             charErrors = (if \<not> validChars codeVerifier
                           then [InvalidCharacters, AllowedCharacters] else [])
         in \<lparr> v_valid = (lengthErrors = [] \<and> charErrors = []),
              v_errors = lengthErrors @ charErrors,
              v_warnings = lengthWarnings \<rparr>))"

section \<open>TokenManager (src/unnamed/part_001, lines 3 to 594)\<close>

text \<open>
  What the code throws:
  \<^item> \<open>NotAFunction\<close>: the TypeError of calling a value that is not a function
  \<^item> \<open>PropertyOfNull\<close>: the TypeError of reading a property of \<open>null\<close>
  \<^item> \<open>PropertyOnPrimitive\<close>: the TypeError of assigning a property to a primitive in
    strict mode (class bodies are strict)
  \<^item> \<open>StoredJsonMalformed\<close>: the SyntaxError of \<open>JSON.parse\<close> on a storage entry
  \<^item> \<open>NoRefreshToken\<close>: 'No refresh token available'
  \<^item> \<open>RefreshFailedStatus n\<close>: 'Refresh failed: ' and the status
  \<^item> \<open>RefreshRejected e\<close>: \<open>data.error || 'Refresh failed'\<close>, \<open>e\<close> being \<open>data.error\<close>
  \<^item> \<open>FetchRejected\<close>: the rejection of \<open>fetch\<close> (server unreachable), which
    \<open>API.request\<close> rethrows as 'Network error: Unable to connect to server' when its
    message mentions fetch
  \<^item> \<open>BodyNotJson\<close>: the rejection of \<open>response.json()\<close>
  \<^item> \<open>AuthenticationRequired\<close>: 'Authentication required'
  \<^item> \<open>AuthenticationFailed e\<close>: \<open>errorData.error || 'Authentication failed'\<close>
  \<^item> \<open>HttpError n e\<close>: \<open>errorData.error\<close>, \<open>e\<close>, or when that is falsy the default
    message of status \<open>n\<close> ('Access forbidden', 'Resource not found', 'Rate limit
    exceeded', 'Internal server error', else 'Request failed')
  \<^item> \<open>HttpErrorNoBody n\<close>: 'HTTP error! status: ' and \<open>n\<close>, when the body is not JSON
\<close>

datatype js_error =
    NotAFunction
  | PropertyOfNull
  | PropertyOnPrimitive
  | StoredJsonMalformed
  | NoRefreshToken
  | RefreshFailedStatus int
  | RefreshRejected jsval
  | FetchRejected
  | BodyNotJson
  | AuthenticationRequired
  | AuthenticationFailed jsval
  | HttpError int jsval
  | HttpErrorNoBody int

text \<open>
  The storage object of \<open>getStorageMethod\<close>: \<open>localStorage\<close>, which keeps strings,
  or the in-memory \<open>Map\<close>, which keeps the values as they are and whose \<open>get\<close>
  is \<open>memoryStorage.get(key) || null\<close>.
\<close>

datatype storage_type = LocalStorage | Memory

record storage_method =
  stype :: storage_type
  entries :: "string \<rightharpoonup> jsval"

definition js_string :: "host \<Rightarrow> jsval \<Rightarrow> string" where
  "js_string h v = (case v of JStr s \<Rightarrow> s | _ \<Rightarrow> to_str h v)"

definition storage_get :: "storage_method \<Rightarrow> string \<Rightarrow> jsval" where
  "storage_get st key =
     (case entries st key of
        None \<Rightarrow> JNull
      | Some v \<Rightarrow> (case stype st of
                     LocalStorage \<Rightarrow> v
                   | Memory \<Rightarrow> if truthy v then v else JNull))"

definition storage_set :: "host \<Rightarrow> storage_method \<Rightarrow> string \<Rightarrow> jsval \<Rightarrow> storage_method" where
  "storage_set h st key v =
     (case stype st of
        LocalStorage \<Rightarrow> st\<lparr>entries := (entries st)(key \<mapsto> JStr (js_string h v))\<rparr>
      | Memory \<Rightarrow> st\<lparr>entries := (entries st)(key \<mapsto> v)\<rparr>)"

definition storage_remove :: "storage_method \<Rightarrow> string \<Rightarrow> storage_method" where
  "storage_remove st key = st\<lparr>entries := (entries st)(key := None)\<rparr>"

text \<open>
  The instance. \<open>refreshTimer\<close> is \<open>None\<close> for \<open>null\<close> and \<open>Some d\<close> for the
  handle of a timer requested with \<open>setTimeout(..., d)\<close> (\<open>d\<close> may be NaN). A promise
  is the outcome it settles to.
\<close>

record token_manager =
  accessToken :: jsval
  refreshToken :: jsval
  sessionData :: jsval
  user :: jsval
  refreshTimer :: "int option option"
  refreshBuffer :: int
  isRefreshing :: bool
  refreshPromise :: "(js_error + jsval) option"
  storage :: storage_method

text \<open>
  The result of \<open>getTokenExpirationInfo\<close>, without its two display strings
  \<open>expiresIn\<close> and \<open>age\<close> (\<open>formatDuration\<close> of the two time spans).
\<close>

record expiration_info =
  expiresAt :: jsval
  issuedAt :: jsval
  timeUntilExpiry :: "int option"
  timeSinceIssued :: "int option"
  isExpired :: bool

definition saveToStorage :: "host \<Rightarrow> token_manager \<Rightarrow> token_manager" where
  "saveToStorage h s =
     (let st1 = (if truthy (accessToken s)
                 then storage_set h (storage s) ''accessToken'' (accessToken s) else storage s);
          st2 = (if truthy (refreshToken s)
                 then storage_set h st1 ''refreshToken'' (refreshToken s) else st1);
          st3 = (if truthy (sessionData s)
                 then storage_set h st2 ''sessionData'' (JStr (json_stringify h (sessionData s)))
                 else st2);
          st4 = (if truthy (user s)
                 then storage_set h st3 ''userData'' (JStr (json_stringify h (user s)))
                 else st3)
      in s\<lparr>storage := st4\<rparr>)"

definition clearFromStorage :: "token_manager \<Rightarrow> token_manager" where
  "clearFromStorage s =
     s\<lparr>storage :=
         storage_remove
           (storage_remove
             (storage_remove (storage_remove (storage s) ''accessToken'') ''refreshToken'')
             ''sessionData'')
           ''userData''\<rparr>"

definition clearRefreshTimer :: "token_manager \<Rightarrow> token_manager" where
  "clearRefreshTimer s = (case refreshTimer s of Some d \<Rightarrow> s\<lparr>refreshTimer := None\<rparr> | None \<Rightarrow> s)"

definition isAuthenticated :: "token_manager \<Rightarrow> bool" where
  "isAuthenticated s = (truthy (accessToken s) \<and> truthy (user s))"

definition getTokenExpirationInfo :: "host \<Rightarrow> int \<Rightarrow> token_manager \<Rightarrow> expiration_info option" where
  "getTokenExpirationInfo h now_ms s =
     (if \<not> truthy (accessToken s) then None
      else
        (case parseJWT h (accessToken s) of
           None \<Rightarrow> None
         | Some payload \<Rightarrow>
             if \<not> truthy payload \<or> \<not> truthy (get_prop payload ''exp'') then None
             else
               (let now = now_seconds now_ms;
                    untilExpiry = num_sub (to_number h (get_prop payload ''exp'')) (Some now);
                    sinceIssued = num_sub (Some now) (to_number h (get_prop payload ''iat''))
                in Some \<lparr> expiresAt = new_Date (num_times (to_number h (get_prop payload ''exp'')) 1000),
                          issuedAt = new_Date (num_times (to_number h (get_prop payload ''iat'')) 1000),
                          timeUntilExpiry = untilExpiry,
                          timeSinceIssued = sinceIssued,
                          isExpired = num_le untilExpiry (Some 0) \<rparr>)))"

text \<open>
  \<open>needsRefresh\<close>: \<open>timeUntilExpiry <= this.refreshBuffer / 1000\<close>, compared in
  milliseconds so that the quotient is not rounded.
\<close>

definition needsRefresh :: "host \<Rightarrow> int \<Rightarrow> token_manager \<Rightarrow> bool" where
  "needsRefresh h now_ms s =
     (case getTokenExpirationInfo h now_ms s of
        None \<Rightarrow> True
      | Some expInfo \<Rightarrow>
          if isExpired expInfo then True
          else num_le (num_times (timeUntilExpiry expInfo) 1000) (Some (refreshBuffer s)))"

text \<open>
  \<open>scheduleRefreshCheck\<close>; the two readings of \<open>Date.now()\<close> in one call are taken to
  be equal. The callback of the timer is \<open>autoRefresh\<close>.
\<close>

definition scheduleRefreshCheck :: "host \<Rightarrow> int \<Rightarrow> token_manager \<Rightarrow> token_manager" where
  "scheduleRefreshCheck h now_ms s =
     (let s1 = clearRefreshTimer s in
      if \<not> truthy (accessToken s1) then s1
      else
        (case getTokenExpirationInfo h now_ms s1 of
           None \<Rightarrow> s1
         | Some expInfo \<Rightarrow>
             if isExpired expInfo then s1
             else
               (let timeUntilRefresh =
                      math_max 1000
                        (num_sub (num_sub (getTime (expiresAt expInfo)) (Some now_ms))
                           (Some (refreshBuffer s1)))
                in s1\<lparr>refreshTimer := Some timeUntilRefresh\<rparr>)))"

text \<open>\<open>setTokens\<close> and \<open>clearTokens\<close>; \<open>updateUI\<close> only writes to the page.\<close>

definition setTokens ::
  "host \<Rightarrow> int \<Rightarrow> token_manager \<Rightarrow> jsval \<Rightarrow> jsval \<Rightarrow> jsval \<Rightarrow> jsval \<Rightarrow> token_manager" where
  "setTokens h now_ms s accessToken' refreshToken' sessionData' user' =
     scheduleRefreshCheck h now_ms
       (saveToStorage h
         (s\<lparr>accessToken := accessToken', refreshToken := refreshToken',
            sessionData := sessionData', user := user'\<rparr>))"

definition clearTokens :: "token_manager \<Rightarrow> token_manager" where
  "clearTokens s =
     clearRefreshTimer
       (clearFromStorage
         (s\<lparr>accessToken := JNull, refreshToken := JNull, sessionData := JNull, user := JNull\<rparr>))"

text \<open>
  \<open>loadTokensFromStorage\<close> and the constructor, given the storage object that
  \<open>getStorageMethod\<close> returned.
\<close>

definition parse_stored :: "host \<Rightarrow> jsval \<Rightarrow> js_error + jsval" where
  "parse_stored h v =
     (case json_parse h (if truthy v then js_string h v else ''null'') of
        Some x \<Rightarrow> Inr x
      | None \<Rightarrow> Inl StoredJsonMalformed)"

definition loadTokensFromStorage :: "host \<Rightarrow> token_manager \<Rightarrow> js_error + token_manager" where
  "loadTokensFromStorage h s =
     (let s1 = s\<lparr>accessToken := storage_get (storage s) ''accessToken'',
                 refreshToken := storage_get (storage s) ''refreshToken''\<rparr>
      in case parse_stored h (storage_get (storage s) ''sessionData'') of
           Inl e \<Rightarrow> Inl e
         | Inr sd \<Rightarrow>
             (case parse_stored h (storage_get (storage s) ''userData'') of
                Inl e \<Rightarrow> Inl e
              | Inr u \<Rightarrow> Inr (s1\<lparr>sessionData := sd, user := u\<rparr>)))"

definition new_TokenManager :: "host \<Rightarrow> int \<Rightarrow> storage_method \<Rightarrow> js_error + token_manager" where
  "new_TokenManager h now_ms st =
     (case loadTokensFromStorage h
             \<lparr> accessToken = JNull, refreshToken = JNull, sessionData = JNull, user = JNull,
               refreshTimer = None, refreshBuffer = 5 * 60 * 1000, isRefreshing = False,
               refreshPromise = None, storage = st \<rparr> of
        Inl e \<Rightarrow> Inl e
      | Inr s \<Rightarrow> Inr (scheduleRefreshCheck h now_ms s))"

subsection \<open>The network and the refresh path\<close>

text \<open>
  A \<open>fetch\<close> either rejects or gives a response: its status and the value of
  \<open>response.json()\<close> (\<open>None\<close> when that rejects). The environment answers the
  k-th request sent and gives the clock reading once k requests have been sent; the world
  is the token manager and the requests sent so far.
\<close>

datatype fetch_result = Rejected | Responded int "jsval option"

record fetch_request =
  url :: string
  authorization :: "string option"
  sent_refresh_token :: "jsval option"

record env =
  server :: "nat \<Rightarrow> fetch_result"
  clock :: "nat \<Rightarrow> int"

record world =
  tm :: token_manager
  sent :: "fetch_request list"

definition fetch :: "env \<Rightarrow> fetch_request \<Rightarrow> world \<Rightarrow> world \<times> fetch_result" where
  "fetch e rq w = (w\<lparr>sent := sent w @ [rq]\<rparr>, server e (length (sent w)))"

definition now_of :: "env \<Rightarrow> world \<Rightarrow> int" where
  "now_of e w = clock e (length (sent w))"

definition response_ok :: "int \<Rightarrow> bool" where
  "response_ok status = (200 \<le> status \<and> status \<le> 299)"

text \<open>
  \<open>this.sessionData.refreshedAt = new Date().toISOString()\<close> under
  \<open>if (this.sessionData)\<close>: an object takes the property, an array or a date takes it
  without any effect on what is read or stored later, a truthy primitive throws.
\<close>

definition stamp_refreshedAt :: "host \<Rightarrow> int \<Rightarrow> jsval \<Rightarrow> js_error + jsval" where
  "stamp_refreshedAt h now_ms sd =
     (if \<not> truthy sd then Inr sd
      else
        (case sd of
           JObj kvs \<Rightarrow> Inr (JObj (assign_prop ''refreshedAt'' (JStr (to_iso h now_ms)) kvs))
         | JArr xs \<Rightarrow> Inr sd
         | JDate d \<Rightarrow> Inr sd
         | _ \<Rightarrow> Inl PropertyOnPrimitive))"

text \<open>
  The \<open>try\<close> block of \<open>performTokenRefresh\<close>: the error thrown, with the world at
  the throw, or the value returned.
\<close>

definition refresh_attempt :: "host \<Rightarrow> env \<Rightarrow> world \<Rightarrow> (js_error \<times> world) + (jsval \<times> world)" where
  "refresh_attempt h e w =
     (case fetch e \<lparr> url = ''/api/auth/refresh'', authorization = None,
                      sent_refresh_token = Some (refreshToken (tm w)) \<rparr> w of
        (w1, Rejected) \<Rightarrow> Inl (FetchRejected, w1)
      | (w1, Responded status body) \<Rightarrow>
          if \<not> response_ok status then Inl (RefreshFailedStatus status, w1)
          else
            (case body of
               None \<Rightarrow> Inl (BodyNotJson, w1)
             | Some JNull \<Rightarrow> Inl (PropertyOfNull, w1)
             | Some JUndefined \<Rightarrow> Inl (PropertyOfNull, w1)
             | Some data \<Rightarrow>
                 if truthy (get_prop data ''success'') \<and> truthy (get_prop data ''access_token'')
                 then
                   (let s1 = (tm w1)\<lparr>accessToken := get_prop data ''access_token'',
                                       refreshToken := get_prop data ''refresh_token''\<rparr>
                    in case stamp_refreshedAt h (now_of e w1) (sessionData s1) of
                         Inl err \<Rightarrow> Inl (err, w1\<lparr>tm := s1\<rparr>)
                       | Inr sd \<Rightarrow>
                           (let s2 = scheduleRefreshCheck h (now_of e w1)
                                       (saveToStorage h (s1\<lparr>sessionData := sd\<rparr>))
                            in Inr (JObj [(''success'', JBool True),
                                          (''token'', accessToken s2),
                                          (''user'', user s2)],
                                    w1\<lparr>tm := s2\<rparr>)))
                 else Inl (RefreshRejected (get_prop data ''error''), w1)))"

text \<open>\<open>performTokenRefresh\<close>: its \<open>catch\<close> clears the tokens and rethrows.\<close>

definition performTokenRefresh :: "host \<Rightarrow> env \<Rightarrow> world \<Rightarrow> world \<times> (js_error + jsval)" where
  "performTokenRefresh h e w =
     (case refresh_attempt h e w of
        Inr (result, w') \<Rightarrow> (w', Inr result)
      | Inl (err, w') \<Rightarrow> (w'\<lparr>tm := clearTokens (tm w')\<rparr>, Inl err))"

text \<open>
  The body of the prototype method \<open>refreshToken()\<close> (lines 235 to 254). A caller that
  finds \<open>isRefreshing\<close> set gets the stored promise, that is its outcome
  (\<open>null\<close> when none is stored).
\<close>

definition refreshToken_method :: "host \<Rightarrow> env \<Rightarrow> world \<Rightarrow> world \<times> (js_error + jsval)" where
  "refreshToken_method h e w =
     (if isRefreshing (tm w)
      then (w, case refreshPromise (tm w) of Some r \<Rightarrow> r | None \<Rightarrow> Inr JNull)
      else if \<not> truthy (refreshToken (tm w)) then (w, Inl NoRefreshToken)
      else
        (case performTokenRefresh h e (w\<lparr>tm := (tm w)\<lparr>isRefreshing := True\<rparr>\<rparr>) of
           (w', r) \<Rightarrow> (w'\<lparr>tm := (tm w')\<lparr>isRefreshing := False, refreshPromise := None\<rparr>\<rparr>, r)))"

text \<open>
  Property lookup on the instance: an own property is found before a method of the
  prototype. The constructor assigns the own properties; the class body declares the
  methods. \<open>refreshToken\<close> is in both lists.
\<close>

definition own_properties :: "string list" where
  "own_properties =
     [''accessToken'', ''refreshToken'', ''sessionData'', ''user'', ''refreshTimer'',
      ''refreshBuffer'', ''isRefreshing'', ''refreshPromise'', ''storage'']"

definition prototype_methods :: "string list" where
  "prototype_methods =
     [''init'', ''getStorageMethod'', ''loadTokensFromStorage'', ''saveToStorage'',
      ''clearFromStorage'', ''setupStorageListener'', ''setTokens'', ''clearTokens'',
      ''getAccessToken'', ''getRefreshToken'', ''getUser'', ''getSession'',
      ''isAuthenticated'', ''getTokenExpirationInfo'', ''needsRefresh'', ''autoRefresh'',
      ''refreshToken'', ''performTokenRefresh'', ''scheduleRefreshCheck'',
      ''clearRefreshTimer'', ''forceRefresh'', ''logout'', ''updateUI'', ''updateNavigation'',
      ''updateTokenDisplays'', ''showNotification'',
      ''getNotificationIcon'', ''getDebugInfo'', ''destroy'']"

datatype binding = OwnProperty | PrototypeMethod | Unbound

definition resolve :: "string \<Rightarrow> binding" where
  "resolve name =
     (if name \<in> set own_properties then OwnProperty
      else if name \<in> set prototype_methods then PrototypeMethod
      else Unbound)"

text \<open>
  The call expression \<open>this.refreshToken()\<close> of \<open>autoRefresh\<close> and
  \<open>forceRefresh\<close>: the method runs only if the name resolves to it; an own property
  holds a value of the model, none of which is callable, and \<open>undefined\<close> is not
  callable either.
\<close>

definition call_this_refreshToken :: "host \<Rightarrow> env \<Rightarrow> world \<Rightarrow> world \<times> (js_error + jsval)" where
  "call_this_refreshToken h e w =
     (case resolve ''refreshToken'' of
        OwnProperty \<Rightarrow> (w, Inl NotAFunction)
      | PrototypeMethod \<Rightarrow> refreshToken_method h e w
      | Unbound \<Rightarrow> (w, Inl NotAFunction))"

definition autoRefresh :: "host \<Rightarrow> env \<Rightarrow> world \<Rightarrow> world \<times> (js_error + jsval)" where
  "autoRefresh h e w =
     (if isRefreshing (tm w) \<or> \<not> needsRefresh h (now_of e w) (tm w) then (w, Inr JUndefined)
      else call_this_refreshToken h e w)"

text \<open>\<open>forceRefresh\<close>; \<open>showNotification\<close> only writes to the page.\<close>

definition forceRefresh :: "host \<Rightarrow> env \<Rightarrow> world \<Rightarrow> world \<times> bool" where
  "forceRefresh h e w =
     (case call_this_refreshToken h e w of
        (w', Inr result) \<Rightarrow> (w', True)
      | (w', Inl err) \<Rightarrow> (w', False))"

section \<open>API.request (src/unnamed/part_000, lines 42 to 161)\<close>

definition API_BASE_URL :: string where
  "API_BASE_URL = ''http://localhost:3000/api''"

definition handleAuthenticationFailure :: "world \<Rightarrow> world" where
  "handleAuthenticationFailure w = w\<lparr>tm := clearTokens (tm w)\<rparr>"

text \<open>
  The error of a response that is neither 401 nor ok (lines 92 to 121): the \<open>switch\<close>
  assigns \<open>errorData.error\<close> for 403, 404, 429 and 500, which throws on \<open>null\<close>
  and on a primitive; the final \<open>throw\<close> reads \<open>errorData.error\<close>.
\<close>

definition http_error :: "int \<Rightarrow> jsval option \<Rightarrow> js_error" where
  "http_error status body =
     (case body of
        None \<Rightarrow> HttpErrorNoBody status
      | Some JNull \<Rightarrow> PropertyOfNull
      | Some JUndefined \<Rightarrow> PropertyOfNull
      | Some (JObj kvs) \<Rightarrow> HttpError status (get_prop (JObj kvs) ''error'')
      | Some (JArr xs) \<Rightarrow> HttpError status JUndefined
      | Some (JDate d) \<Rightarrow> HttpError status JUndefined
      | Some primitive \<Rightarrow>
          if status \<in> set [403, 404, 429, 500] then PropertyOnPrimitive
          else HttpError status JUndefined)"

text \<open>
  \<open>request(endpoint, options)\<close>. It calls itself after \<open>forceRefresh\<close>, so the
  first argument bounds the depth of the calls: \<open>None\<close> is a call that has not returned
  within that depth. An error of the nested call is caught by the \<open>catch\<close> around
  \<open>forceRefresh\<close> and the retry.
\<close>

fun request :: "nat \<Rightarrow> host \<Rightarrow> env \<Rightarrow> string \<Rightarrow> world \<Rightarrow> world \<times> (js_error + jsval) option" where
  "request 0 h e endpoint w = (w, None)"
| "request (Suc n) h e endpoint w =
     (let token = accessToken (tm w) in
      case fetch e \<lparr> url = API_BASE_URL @ endpoint,
                      authorization = (if truthy token then Some (''Bearer '' @ js_string h token)
                                       else None),
                      sent_refresh_token = None \<rparr> w of
        (w1, Rejected) \<Rightarrow> (w1, Some (Inl FetchRejected))
      | (w1, Responded status body) \<Rightarrow>
          if status = 401 then
            (let errorData = (case body of Some d \<Rightarrow> d | None \<Rightarrow> JObj []) in
             if take 6 endpoint \<noteq> ''/auth/'' \<and> truthy (accessToken (tm w1))
                \<and> truthy (refreshToken (tm w1))
             then
               (case forceRefresh h e w1 of
                  (w2, refreshed) \<Rightarrow>
                    (case request n h e endpoint w2 of
                       (w3, None) \<Rightarrow> (w3, None)
                     | (w3, Some (Inr data)) \<Rightarrow> (w3, Some (Inr data))
                     | (w3, Some (Inl refreshError)) \<Rightarrow>
                         (handleAuthenticationFailure w3, Some (Inl AuthenticationRequired))))
             else
               (handleAuthenticationFailure w1,
                Some (Inl (case errorData of
                             JNull \<Rightarrow> PropertyOfNull
                           | _ \<Rightarrow> AuthenticationFailed (get_prop errorData ''error'')))))
          else if \<not> response_ok status then (w1, Some (Inl (http_error status body)))
          else
            (w1, Some (case body of Some data \<Rightarrow> Inr data | None \<Rightarrow> Inl BodyNotJson)))"

section \<open>Example inputs\<close>

text \<open>
  A host for the examples: \<open>atob\<close>, \<open>JSON.parse\<close>, \<open>JSON.stringify\<close> and
  SHA-256 as tables of the browser's results on the inputs the examples use (the value
  elsewhere is of no consequence), and the ISO text of the instant 1000000 ms. The SHA-256
  entry is the example of RFC 7636, appendix B.
\<close>

definition payload_soon :: jsval where
  "payload_soon = JObj [(''iss'', JStr ''a''), (''sub'', JStr ''b''), (''aud'', JStr ''c''),
                        (''iat'', JNum 900), (''exp'', JNum 1100)]"

definition payload_expired :: jsval where
  "payload_expired = JObj [(''iss'', JStr ''a''), (''sub'', JStr ''b''), (''aud'', JStr ''c''),
                           (''iat'', JNum 900), (''exp'', JNum 999)]"

definition payload_exp0 :: jsval where
  "payload_exp0 = JObj [(''iss'', JStr ''a''), (''sub'', JStr ''b''), (''aud'', JStr ''c''),
                        (''iat'', JNum 900), (''exp'', JNum 0)]"

definition payload_no_iss :: jsval where
  "payload_no_iss = JObj [(''sub'', JStr ''b''), (''aud'', JStr ''c''),
                          (''iat'', JNum 900), (''exp'', JNum 5000)]"

definition payload_10s :: jsval where
  "payload_10s = JObj [(''exp'', JNum 1010)]"

definition demo_atob :: "(string \<times> string) list" where
  \<open>demo_atob =
     [(''eyJpc3MiOiJhIiwic3ViIjoiYiIsImF1ZCI6ImMiLCJpYXQiOjkwMCwiZXhwIjoxMTAwfQ=='',
       ''{"iss":"a","sub":"b","aud":"c","iat":900,"exp":1100}''),
      (''eyJpc3MiOiJhIiwic3ViIjoiYiIsImF1ZCI6ImMiLCJpYXQiOjkwMCwiZXhwIjo5OTl9'',
       ''{"iss":"a","sub":"b","aud":"c","iat":900,"exp":999}''),
      (''eyJpc3MiOiJhIiwic3ViIjoiYiIsImF1ZCI6ImMiLCJpYXQiOjkwMCwiZXhwIjowfQ=='',
       ''{"iss":"a","sub":"b","aud":"c","iat":900,"exp":0}''),
      (''eyJzdWIiOiJiIiwiYXVkIjoiYyIsImlhdCI6OTAwLCJleHAiOjUwMDB9'',
       ''{"sub":"b","aud":"c","iat":900,"exp":5000}''),
      (''eyJleHAiOjEwMTB9'', ''{"exp":1010}'')]\<close>

definition demo_json :: "(string \<times> jsval) list" where
  \<open>demo_json =
     [(''{"iss":"a","sub":"b","aud":"c","iat":900,"exp":1100}'', payload_soon),
      (''{"iss":"a","sub":"b","aud":"c","iat":900,"exp":999}'', payload_expired),
      (''{"iss":"a","sub":"b","aud":"c","iat":900,"exp":0}'', payload_exp0),
      (''{"sub":"b","aud":"c","iat":900,"exp":5000}'', payload_no_iss),
      (''{"exp":1010}'', payload_10s),
      (''null'', JNull)]\<close>

definition demo_stringify :: "(jsval \<times> string) list" where
  \<open>demo_stringify =
     [(JObj [(''id'', JStr ''s1'')], ''{"id":"s1"}''),
      (JObj [(''id'', JNum 1), (''role'', JStr ''customer'')], ''{"id":1,"role":"customer"}'')]\<close>

definition rfc_verifier :: string where
  "rfc_verifier = ''dBjftJeZ4CVP-mB92K27uhbUJU1p1r_wW1gFWFOEjXk''"

definition rfc_digest :: "8 word list" where
  "rfc_digest =
     [19, 211, 30, 150, 26, 26, 216, 236, 47, 22, 177, 12, 76, 152, 46, 8,
      118, 168, 120, 173, 109, 241, 68, 86, 110, 225, 137, 74, 203, 112, 249, 195]"

definition demo_host :: host where
  "demo_host =
     \<lparr> atob = map_of demo_atob,
       json_parse = map_of demo_json,
       json_stringify = (\<lambda>v. case map_of demo_stringify v of Some s \<Rightarrow> s | None \<Rightarrow> ''null''),
       coerce_num = (\<lambda>v. None),
       to_str = (\<lambda>v. []),
       to_iso = (\<lambda>t. ''1970-01-01T00:16:40.000Z''),
       sha256 = (\<lambda>bs. if bs = utf8_encode rfc_verifier then Some rfc_digest else None) \<rparr>"

definition token_soon :: string where
  "token_soon = ''h.eyJpc3MiOiJhIiwic3ViIjoiYiIsImF1ZCI6ImMiLCJpYXQiOjkwMCwiZXhwIjoxMTAwfQ.s''"

definition token_expired :: string where
  "token_expired = ''h.eyJpc3MiOiJhIiwic3ViIjoiYiIsImF1ZCI6ImMiLCJpYXQiOjkwMCwiZXhwIjo5OTl9.s''"

definition token_exp0 :: string where
  "token_exp0 = ''h.eyJpc3MiOiJhIiwic3ViIjoiYiIsImF1ZCI6ImMiLCJpYXQiOjkwMCwiZXhwIjowfQ.s''"

definition token_no_iss :: string where
  "token_no_iss = ''h.eyJzdWIiOiJiIiwiYXVkIjoiYyIsImlhdCI6OTAwLCJleHAiOjUwMDB9.s''"

definition token_10s :: string where
  "token_10s = ''h.eyJleHAiOjEwMTB9.s''"

text \<open>
  A token manager after \<open>setTokens("A1", "R1", ...)\<close> on an empty
  \<open>localStorage\<close>, a server that answers 401 to every request, one that cannot be
  reached, and a clock that stands at 1000000 ms.
\<close>

definition empty_storage :: storage_method where
  "empty_storage = \<lparr> stype = LocalStorage, entries = Map.empty \<rparr>"

definition fresh_manager :: token_manager where
  "fresh_manager =
     \<lparr> accessToken = JNull, refreshToken = JNull, sessionData = JNull, user = JNull,
       refreshTimer = None, refreshBuffer = 5 * 60 * 1000, isRefreshing = False,
       refreshPromise = None, storage = empty_storage \<rparr>"

definition logged_in :: token_manager where
  "logged_in =
     setTokens demo_host 1000000 fresh_manager (JStr ''A1'') (JStr ''R1'')
       (JObj [(''id'', JStr ''s1'')]) (JObj [(''id'', JNum 1), (''role'', JStr ''customer'')])"

definition always_401 :: env where
  "always_401 = \<lparr> server = (\<lambda>k. Responded 401 None), clock = (\<lambda>k. 1000000) \<rparr>"

definition unreachable :: env where
  "unreachable = \<lparr> server = (\<lambda>k. Rejected), clock = (\<lambda>k. 1000000) \<rparr>"

definition logged_in_world :: world where
  "logged_in_world = \<lparr> tm = logged_in, sent = [] \<rparr>"

section \<open>Properties\<close>

subsection \<open>Shared facts\<close>

lemma parseJWT_Some_shape:
  assumes "parseJWT h (JStr t) = Some p"
  shows "t \<noteq> []" and "length (split_dot t) = 3"
  using assms by (auto simp: parseJWT_def Let_def split: if_splits)

lemma validateJWT_parsed:
  assumes "parseJWT h (JStr t) = Some p"
  shows "validateJWT h now_ms (JStr t) =
           (if \<not> truthy p then rejected PayloadParseFailed
            else check_claims h (now_seconds now_ms) p)"
  using parseJWT_Some_shape[OF assms] assms by (simp add: validateJWT_def)

lemma now_seconds_nonneg: "0 \<le> now_ms \<Longrightarrow> 0 \<le> now_seconds now_ms"
  by (simp add: now_seconds_def)

lemma has_num_claim_truthy:
  assumes "get_prop p k = JNum n"
  shows "truthy p"
  using assms by (cases p) (simp_all add: get_prop_def)

lemma resolve_refreshToken: "resolve ''refreshToken'' = OwnProperty"
  by (simp add: resolve_def own_properties_def)

lemma call_not_callable: "call_this_refreshToken h e w = (w, Inl NotAFunction)"
  by (simp add: call_this_refreshToken_def resolve_refreshToken)

lemma forceRefresh_no_effect: "forceRefresh h e w = (w, False)"
  by (simp add: forceRefresh_def call_not_callable)

lemma parseJWT_opaque: "parseJWT h (JStr ''A1'') = None" "parseJWT h (JStr ''A2'') = None"
  by (simp_all add: parseJWT_def Let_def)

lemma logged_in_fields:
  "accessToken logged_in = JStr ''A1''" "refreshToken logged_in = JStr ''R1''"
  "sessionData logged_in = JObj [(''id'', JStr ''s1'')]"
  "user logged_in = JObj [(''id'', JNum 1), (''role'', JStr ''customer'')]"
  "refreshTimer logged_in = None" "refreshBuffer logged_in = 300000"
  "isRefreshing logged_in = False"
  by (simp_all add: logged_in_def setTokens_def scheduleRefreshCheck_def clearRefreshTimer_def
      saveToStorage_def fresh_manager_def getTokenExpirationInfo_def parseJWT_opaque Let_def)

subsection \<open>The refresh path\<close>

text \<open>
  C1. Two \<open>refresh()\<close> calls at once should give one network call and the same token
  set to both callers. The code does not do that: in every state, two \<open>forceRefresh()\<close>
  calls, one after the other (neither reaches an \<open>await\<close> that suspends it), send no
  request at all, leave the token manager as it was, and both return \<open>false\<close>.
\<close>

theorem forceRefresh_twice_sends_nothing:
  "sent (fst (forceRefresh h e (fst (forceRefresh h e w)))) = sent w
   \<and> tm (fst (forceRefresh h e (fst (forceRefresh h e w)))) = tm w
   \<and> snd (forceRefresh h e w) = False
   \<and> snd (forceRefresh h e (fst (forceRefresh h e w))) = False"
  by (simp add: forceRefresh_no_effect)

theorem forceRefresh_twice_sends_nothing_witness:
  "sent (fst (forceRefresh demo_host always_401
                (fst (forceRefresh demo_host always_401 logged_in_world)))) = []
   \<and> snd (forceRefresh demo_host always_401 logged_in_world) = False
   \<and> snd (forceRefresh demo_host always_401
             (fst (forceRefresh demo_host always_401 logged_in_world))) = False"
  using forceRefresh_twice_sends_nothing [of demo_host always_401 logged_in_world]
  by (simp add: logged_in_world_def)

lemma request_401_step:
  assumes "take 6 endpoint \<noteq> ''/auth/''" "truthy (accessToken (tm w))"
    "truthy (refreshToken (tm w))" "server e (length (sent w)) = Responded 401 b"
  shows "request (Suc n) h e endpoint w =
           (case request n h e endpoint
                   (w\<lparr>sent := sent w @ [\<lparr> url = API_BASE_URL @ endpoint,
                          authorization = Some (''Bearer '' @ js_string h (accessToken (tm w))),
                          sent_refresh_token = None \<rparr>]\<rparr>) of
              (w3, None) \<Rightarrow> (w3, None)
            | (w3, Some (Inr data)) \<Rightarrow> (w3, Some (Inr data))
            | (w3, Some (Inl refreshError)) \<Rightarrow>
                (handleAuthenticationFailure w3, Some (Inl AuthenticationRequired)))"
  using assms by (simp add: fetch_def forceRefresh_no_effect Let_def)

text \<open>
  C2. A 401 on a protected endpoint should lead to one refresh and one retry, a second
  401 being final. The code does not do that: with an access token and a refresh token
  present and a server that answers 401 to every request, \<open>request\<close> on an endpoint
  outside \<open>/auth/\<close> has not returned at any depth \<open>n\<close> of its calls to itself; it has
  then sent the request \<open>n\<close> times with the same bearer token, sent no refresh request,
  and left the tokens in place.
\<close>

theorem request_retries_without_bound:
  assumes "take 6 endpoint \<noteq> ''/auth/''"
    and "truthy (accessToken (tm w))"
    and "truthy (refreshToken (tm w))"
    and "\<forall>k. \<exists>b. server e k = Responded 401 b"
  shows "request n h e endpoint w =
           (w\<lparr>sent := sent w @ replicate n
                 \<lparr> url = API_BASE_URL @ endpoint,
                   authorization = Some (''Bearer '' @ js_string h (accessToken (tm w))),
                   sent_refresh_token = None \<rparr>\<rparr>, None)"
  using assms(2,3)
proof (induction n arbitrary: w)
  case 0
  then show ?case by simp
next
  case (Suc n)
  let ?rq = "\<lparr> url = API_BASE_URL @ endpoint,
                authorization = Some (''Bearer '' @ js_string h (accessToken (tm w))),
                sent_refresh_token = None \<rparr>"
  let ?w1 = "w\<lparr>sent := sent w @ [?rq]\<rparr>"
  obtain b where b: "server e (length (sent w)) = Responded 401 b"
    using assms(4) by blast
  have tok: "truthy (accessToken (tm ?w1))" "truthy (refreshToken (tm ?w1))"
    using Suc.prems by simp_all
  have ih: "request n h e endpoint ?w1 = (?w1\<lparr>sent := sent ?w1 @ replicate n ?rq\<rparr>, None)"
    using Suc.IH[OF tok] by simp
  have "request (Suc n) h e endpoint w = (?w1\<lparr>sent := sent ?w1 @ replicate n ?rq\<rparr>, None)"
    using request_401_step[OF assms(1) Suc.prems b, of n h] ih by simp
  then show ?case by (simp add: replicate_app_Cons_same)
qed

theorem request_retries_without_bound_witness:
  "length (sent (fst (request 3 demo_host always_401 ''/customer/profile'' logged_in_world))) = 3
   \<and> snd (request 3 demo_host always_401 ''/customer/profile'' logged_in_world) = None
   \<and> tm (fst (request 3 demo_host always_401 ''/customer/profile'' logged_in_world)) = logged_in"
  using request_retries_without_bound
          [of "''/customer/profile''" logged_in_world always_401 3 demo_host]
  by (simp add: logged_in_world_def logged_in_fields always_401_def)

text \<open>
  C9. In every state \<open>forceRefresh()\<close> returns \<open>false\<close> and changes nothing: the
  call \<open>this.refreshToken()\<close> finds the own property \<open>refreshToken\<close> before the
  method of the prototype and throws a TypeError, which \<open>forceRefresh\<close> catches;
  \<open>autoRefresh\<close> rejects with the same TypeError whenever it gets as far as the call.
\<close>

theorem forceRefresh_returns_false:
  "forceRefresh h e w = (w, False)
   \<and> call_this_refreshToken h e w = (w, Inl NotAFunction)
   \<and> autoRefresh h e w =
       (w, if isRefreshing (tm w) \<or> \<not> needsRefresh h (now_of e w) (tm w)
           then Inr JUndefined else Inl NotAFunction)"
  by (simp add: forceRefresh_no_effect call_not_callable autoRefresh_def)

theorem forceRefresh_returns_false_witness:
  "refreshToken (tm logged_in_world) = JStr ''R1''
   \<and> forceRefresh demo_host always_401 logged_in_world = (logged_in_world, False)
   \<and> call_this_refreshToken demo_host always_401 logged_in_world
       = (logged_in_world, Inl NotAFunction)"
  using forceRefresh_returns_false [of demo_host always_401 logged_in_world]
  by (simp add: logged_in_world_def logged_in_fields)

subsection \<open>Token validation\<close>

text \<open>
  C8, as amended. For a token whose decoded payload has a numeric \<open>exp\<close>, with the
  clock at or after the epoch: the expiry check of \<open>validateJWT\<close> reports an error
  exactly when \<open>exp <= now\<close> ('Token has expired', or 'Token has no expiration
  claim' when \<open>exp\<close> is 0), and the result is then not valid. The result is valid
  exactly when no required claim is missing, \<open>exp > now\<close>, and no truthy \<open>nbf\<close>
  is later than now: the errors are the missing-claims error, the expiry error and the
  not-yet-valid error, each under its own condition, and nothing else. The expiring-soon
  warning is reported exactly when \<open>now < exp <= now + 300\<close>, and the not-yet-valid
  error exactly when \<open>nbf\<close> is truthy and \<open>nbf > now\<close>, so whenever a numeric
  \<open>nbf\<close> is later than now.
\<close>

theorem validateJWT_expiry_checks:
  assumes parsed: "parseJWT h (JStr t) = Some payload"
    and exp: "get_prop payload ''exp'' = JNum ex"
    and clock: "0 \<le> now_ms"
  shows "errors (validateJWT h now_ms (JStr t)) =
           (if missingClaims payload \<noteq> [] then [MissingRequiredClaims (missingClaims payload)]
            else [])
           @ (if ex = 0 then [NoExpirationClaim]
              else if ex \<le> now_seconds now_ms then [TokenExpired] else [])
           @ (if truthy (get_prop payload ''nbf'')
                 \<and> num_gt (to_number h (get_prop payload ''nbf'')) (Some (now_seconds now_ms))
              then [NotYetValid] else [])
       \<and> valid (validateJWT h now_ms (JStr t)) = (errors (validateJWT h now_ms (JStr t)) = [])
       \<and> (valid (validateJWT h now_ms (JStr t)) \<longleftrightarrow>
            missingClaims payload = [] \<and> now_seconds now_ms < ex
            \<and> \<not> (truthy (get_prop payload ''nbf'')
                 \<and> num_gt (to_number h (get_prop payload ''nbf'')) (Some (now_seconds now_ms))))
       \<and> (ex \<le> now_seconds now_ms \<longleftrightarrow>
            TokenExpired \<in> set (errors (validateJWT h now_ms (JStr t)))
            \<or> NoExpirationClaim \<in> set (errors (validateJWT h now_ms (JStr t))))
       \<and> (ex \<le> now_seconds now_ms \<longrightarrow> \<not> valid (validateJWT h now_ms (JStr t)))
       \<and> (TokenExpired \<in> set (errors (validateJWT h now_ms (JStr t)))
            \<longleftrightarrow> ex \<noteq> 0 \<and> ex \<le> now_seconds now_ms)
       \<and> (ExpiresSoon \<in> set (warnings (validateJWT h now_ms (JStr t)))
            \<longleftrightarrow> now_seconds now_ms < ex \<and> ex \<le> now_seconds now_ms + 300)
       \<and> (NotYetValid \<in> set (errors (validateJWT h now_ms (JStr t))) \<longleftrightarrow>
            truthy (get_prop payload ''nbf'')
            \<and> num_gt (to_number h (get_prop payload ''nbf'')) (Some (now_seconds now_ms)))
       \<and> (\<forall>nb. get_prop payload ''nbf'' = JNum nb \<and> nb > now_seconds now_ms
              \<longrightarrow> NotYetValid \<in> set (errors (validateJWT h now_ms (JStr t)))
                  \<and> \<not> valid (validateJWT h now_ms (JStr t)))"
proof -
  let ?now = "now_seconds now_ms"
  let ?nbf = "truthy (get_prop payload ''nbf'')
              \<and> num_gt (to_number h (get_prop payload ''nbf'')) (Some ?now)"
  have tp: "truthy payload" using exp by (rule has_num_claim_truthy)
  have v: "validateJWT h now_ms (JStr t) = check_claims h ?now payload"
    using validateJWT_parsed[OF parsed] tp by simp
  have n0: "0 \<le> ?now" using clock by (rule now_seconds_nonneg)
  have ee: "expiry_errors h ?now payload =
              (if ex = 0 then [NoExpirationClaim] else if ex \<le> ?now then [TokenExpired] else [])"
    by (simp add: expiry_errors_def exp to_number_def num_le_def)
  have ew: "expiry_warnings h ?now payload =
              (if ex \<noteq> 0 \<and> ?now < ex \<and> ex \<le> ?now + 300 then [ExpiresSoon] else [])"
    by (auto simp: expiry_warnings_def exp to_number_def num_le_def)
  have ne: "nbf_errors h ?now payload = (if ?nbf then [NotYetValid] else [])"
    by (simp add: nbf_errors_def)
  have adv: "ExpiresSoon \<notin> set (advisory_warnings payload)"
    by (auto simp: advisory_warnings_def)
  have nbf: "\<And>nb. get_prop payload ''nbf'' = JNum nb \<Longrightarrow> nb > ?now \<Longrightarrow> ?nbf"
    using n0 by (auto simp: to_number_def num_gt_def)
  have errs: "errors (check_claims h ?now payload) =
           (if missingClaims payload \<noteq> [] then [MissingRequiredClaims (missingClaims payload)]
            else [])
           @ (if ex = 0 then [NoExpirationClaim] else if ex \<le> ?now then [TokenExpired] else [])
           @ (if ?nbf then [NotYetValid] else [])"
    by (simp add: check_claims_def Let_def ee ne)
  have val: "valid (check_claims h ?now payload) = (errors (check_claims h ?now payload) = [])"
    by (simp add: check_claims_def Let_def)
  have warns: "warnings (check_claims h ?now payload) =
           expiry_warnings h ?now payload @ advisory_warnings payload"
    by (simp add: check_claims_def Let_def)
  show ?thesis
    unfolding v val warns ew
    apply (subst errs)+
    using n0 adv nbf by (auto split: if_splits)
qed

lemmas demo_eval = parseJWT_def base64UrlDecode_def demo_host_def demo_atob_def
      demo_json_def add_date_def get_prop_def to_number_def num_times_def
      new_Date_def Let_def

lemma parse_soon: "parseJWT demo_host (JStr token_soon) =
   Some (JObj [(''iss'', JStr ''a''), (''sub'', JStr ''b''), (''aud'', JStr ''c''),
     (''iat'', JNum 900), (''exp'', JNum 1100),
     (''iatDate'', JDate (Some 900000)), (''expDate'', JDate (Some 1100000))])"
  by (simp add: demo_eval token_soon_def payload_soon_def)

lemma parse_expired: "parseJWT demo_host (JStr token_expired) =
   Some (JObj [(''iss'', JStr ''a''), (''sub'', JStr ''b''), (''aud'', JStr ''c''),
     (''iat'', JNum 900), (''exp'', JNum 999),
     (''iatDate'', JDate (Some 900000)), (''expDate'', JDate (Some 999000))])"
  by (simp add: demo_eval token_expired_def payload_expired_def)

lemma parse_exp0: "parseJWT demo_host (JStr token_exp0) =
   Some (JObj [(''iss'', JStr ''a''), (''sub'', JStr ''b''), (''aud'', JStr ''c''),
     (''iat'', JNum 900), (''exp'', JNum 0), (''iatDate'', JDate (Some 900000))])"
  by (simp add: demo_eval token_exp0_def payload_exp0_def)

lemma parse_10s: "parseJWT demo_host (JStr token_10s) =
   Some (JObj [(''exp'', JNum 1010), (''expDate'', JDate (Some 1010000))])"
  by (simp add: demo_eval token_10s_def payload_10s_def)

lemma parse_no_iss: "parseJWT demo_host (JStr token_no_iss) =
   Some (JObj [(''sub'', JStr ''b''), (''aud'', JStr ''c''), (''iat'', JNum 900),
     (''exp'', JNum 5000), (''iatDate'', JDate (Some 900000)),
     (''expDate'', JDate (Some 5000000))])"
  by (simp add: demo_eval token_no_iss_def payload_no_iss_def)

theorem validateJWT_expiry_checks_witness:
  "ExpiresSoon \<in> set (warnings (validateJWT demo_host 1000000 (JStr token_soon)))
   \<and> errors (validateJWT demo_host 1000000 (JStr token_soon)) = []
   \<and> valid (validateJWT demo_host 1000000 (JStr token_soon))
   \<and> errors (validateJWT demo_host 1000000 (JStr token_expired)) = [TokenExpired]
   \<and> \<not> valid (validateJWT demo_host 1000000 (JStr token_expired))
   \<and> ExpiresSoon \<notin> set (warnings (validateJWT demo_host 1000000 (JStr token_expired)))
   \<and> errors (validateJWT demo_host 1000000 (JStr token_no_iss))
       = [MissingRequiredClaims [''iss'']]"
  using validateJWT_expiry_checks [OF parse_soon, of 1100 1000000]
    validateJWT_expiry_checks [OF parse_expired, of 999 1000000]
    validateJWT_expiry_checks [OF parse_no_iss, of 5000 1000000]
  by (simp add: get_prop_def now_seconds_def missingClaims_def requiredClaims_def
      prop_truthy_def)

text \<open>
  C8 as stated fails: a token with \<open>exp\<close> 5000 at the time 1000, not expired, is
  reported invalid, with the error that the claim \<open>iss\<close> is missing.
\<close>

theorem validateJWT_invalid_before_expiry_counterexample:
  "get_prop payload_no_iss ''exp'' = JNum 5000
   \<and> now_seconds 1000000 < 5000
   \<and> valid (validateJWT demo_host 1000000 (JStr token_no_iss)) = False
   \<and> errors (validateJWT demo_host 1000000 (JStr token_no_iss))
       = [MissingRequiredClaims [''iss'']]"
  using validateJWT_parsed[OF parse_no_iss, of 1000000]
  by (simp add: check_claims_def expiry_errors_def nbf_errors_def missingClaims_def
      requiredClaims_def prop_truthy_def get_prop_def to_number_def num_le_def now_seconds_def
      payload_no_iss_def Let_def)

lemma nbf_errors_subset: "set (nbf_errors h now payload) \<subseteq> {NotYetValid}"
  by (auto simp: nbf_errors_def split: if_splits)

text \<open>
  C10. \<open>validateJWT\<close> tests the required claims by truthiness: a required claim that is
  present with a falsy value (0, the empty string, \<open>false\<close>, \<open>null\<close>) is listed in
  the 'Missing required claims' error and the token is invalid; when that claim is
  \<open>exp\<close>, the token is reported as having no expiration claim and not as expired.
\<close>

theorem falsy_required_claim_reported_missing:
  assumes parsed: "parseJWT h (JStr t) = Some (JObj kvs)"
    and required: "c \<in> set requiredClaims"
    and present: "map_of kvs c = Some v"
    and falsy: "\<not> truthy v"
  shows "c \<in> set (missingClaims (JObj kvs))
       \<and> MissingRequiredClaims (missingClaims (JObj kvs))
            \<in> set (errors (validateJWT h now_ms (JStr t)))
       \<and> \<not> valid (validateJWT h now_ms (JStr t))
       \<and> (c = ''exp'' \<longrightarrow>
            NoExpirationClaim \<in> set (errors (validateJWT h now_ms (JStr t)))
            \<and> TokenExpired \<notin> set (errors (validateJWT h now_ms (JStr t))))"
proof -
  let ?p = "JObj kvs"
  have v: "validateJWT h now_ms (JStr t) = check_claims h (now_seconds now_ms) ?p"
    using validateJWT_parsed[OF parsed] by simp
  have g: "get_prop ?p c = v" using present by (simp add: get_prop_def)
  have m: "c \<in> set (missingClaims ?p)"
    using required falsy g by (simp add: missingClaims_def prop_truthy_def)
  then have ne: "missingClaims ?p \<noteq> []" by auto
  have e: "c = ''exp'' \<Longrightarrow> expiry_errors h (now_seconds now_ms) ?p = [NoExpirationClaim]"
    using g falsy by (simp add: expiry_errors_def)
  show ?thesis
    unfolding v using m ne e nbf_errors_subset[of h "now_seconds now_ms" ?p]
    by (auto simp: check_claims_def Let_def)
qed

theorem falsy_required_claim_reported_missing_witness:
  "\<not> truthy (JNum 0)
   \<and> ''exp'' \<in> set (missingClaims (JObj [(''iss'', JStr ''a''), (''sub'', JStr ''b''),
        (''aud'', JStr ''c''), (''iat'', JNum 900), (''exp'', JNum 0),
        (''iatDate'', JDate (Some 900000))]))
   \<and> NoExpirationClaim \<in> set (errors (validateJWT demo_host 1000000 (JStr token_exp0)))
   \<and> TokenExpired \<notin> set (errors (validateJWT demo_host 1000000 (JStr token_exp0)))
   \<and> \<not> valid (validateJWT demo_host 1000000 (JStr token_exp0))"
  using falsy_required_claim_reported_missing [OF parse_exp0, of "''exp''" "JNum 0" 1000000]
  by (simp add: requiredClaims_def)

subsection \<open>The token store\<close>

lemma clearRefreshTimer_fields:
  "accessToken (clearRefreshTimer s) = accessToken s"
  "refreshToken (clearRefreshTimer s) = refreshToken s"
  "sessionData (clearRefreshTimer s) = sessionData s"
  "user (clearRefreshTimer s) = user s"
  "storage (clearRefreshTimer s) = storage s"
  "refreshBuffer (clearRefreshTimer s) = refreshBuffer s"
  "refreshTimer (clearRefreshTimer s) = None"
  by (simp_all add: clearRefreshTimer_def split: option.splits)

lemma clearTokens_fields:
  "accessToken (clearTokens s) = JNull"
  "refreshToken (clearTokens s) = JNull"
  "sessionData (clearTokens s) = JNull"
  "user (clearTokens s) = JNull"
  "refreshTimer (clearTokens s) = None"
  "entries (storage (clearTokens s)) k =
     (if k \<in> set [''accessToken'', ''refreshToken'', ''sessionData'', ''userData'']
      then None else entries (storage s) k)"
  by (simp_all add: clearTokens_def clearRefreshTimer_fields clearFromStorage_def
      storage_remove_def)

lemma storage_get_absent: "entries st k = None \<Longrightarrow> storage_get st k = JNull"
  by (simp add: storage_get_def)

lemma performTokenRefresh_failed:
  assumes "snd (performTokenRefresh h e w) = Inl err"
  shows "\<exists>s'. tm (fst (performTokenRefresh h e w)) = clearTokens s'"
  using assms by (auto simp: performTokenRefresh_def split: sum.splits prod.splits)

lemma performTokenRefresh_unreachable:
  assumes "server e (length (sent w)) = Rejected"
  shows "snd (performTokenRefresh h e w) = Inl FetchRejected"
  using assms by (simp add: performTokenRefresh_def refresh_attempt_def fetch_def)

lemma performTokenRefresh_rejected:
  assumes "server e (length (sent w)) = Responded st b" "\<not> response_ok st"
  shows "snd (performTokenRefresh h e w) = Inl (RefreshFailedStatus st)"
  using assms by (simp add: performTokenRefresh_def refresh_attempt_def fetch_def)

text \<open>
  C3. A refresh attempt that fails clears the token store. When the refresh endpoint
  cannot be reached or answers with a status that is not ok, \<open>performTokenRefresh\<close>
  throws; and whenever it throws, whatever the cause, the access token, the refresh token,
  the session and the user are \<open>null\<close>, their four storage entries are gone, and no
  refresh timer is pending.
\<close>

theorem refresh_failure_clears_tokens:
  "(server e (length (sent w)) = Rejected
      \<longrightarrow> snd (performTokenRefresh h e w) = Inl FetchRejected)
   \<and> (\<forall>st b. server e (length (sent w)) = Responded st b \<and> \<not> response_ok st
         \<longrightarrow> snd (performTokenRefresh h e w) = Inl (RefreshFailedStatus st))
   \<and> (\<forall>err. snd (performTokenRefresh h e w) = Inl err \<longrightarrow>
         accessToken (tm (fst (performTokenRefresh h e w))) = JNull
         \<and> refreshToken (tm (fst (performTokenRefresh h e w))) = JNull
         \<and> sessionData (tm (fst (performTokenRefresh h e w))) = JNull
         \<and> user (tm (fst (performTokenRefresh h e w))) = JNull
         \<and> refreshTimer (tm (fst (performTokenRefresh h e w))) = None
         \<and> (\<forall>k \<in> set [''accessToken'', ''refreshToken'', ''sessionData'', ''userData''].
               entries (storage (tm (fst (performTokenRefresh h e w)))) k = None
               \<and> storage_get (storage (tm (fst (performTokenRefresh h e w)))) k = JNull))"
proof (intro conjI allI impI)
  show "server e (length (sent w)) = Rejected
      \<Longrightarrow> snd (performTokenRefresh h e w) = Inl FetchRejected"
    by (rule performTokenRefresh_unreachable)
next
  fix st b
  assume "server e (length (sent w)) = Responded st b \<and> \<not> response_ok st"
  then show "snd (performTokenRefresh h e w) = Inl (RefreshFailedStatus st)"
    using performTokenRefresh_rejected by blast
next
  fix err
  assume "snd (performTokenRefresh h e w) = Inl err"
  then obtain s' where w': "tm (fst (performTokenRefresh h e w)) = clearTokens s'"
    using performTokenRefresh_failed by blast
  show "accessToken (tm (fst (performTokenRefresh h e w))) = JNull"
    "refreshToken (tm (fst (performTokenRefresh h e w))) = JNull"
    "sessionData (tm (fst (performTokenRefresh h e w))) = JNull"
    "user (tm (fst (performTokenRefresh h e w))) = JNull"
    "refreshTimer (tm (fst (performTokenRefresh h e w))) = None"
    by (simp_all add: w' clearTokens_fields)
  show "\<forall>k \<in> set [''accessToken'', ''refreshToken'', ''sessionData'', ''userData''].
               entries (storage (tm (fst (performTokenRefresh h e w)))) k = None
               \<and> storage_get (storage (tm (fst (performTokenRefresh h e w)))) k = JNull"
    by (simp add: w' clearTokens_fields storage_get_absent)
qed

lemma logged_in_storage:
  "entries (storage logged_in) ''accessToken'' = Some (JStr ''A1'')"
  "entries (storage logged_in) ''refreshToken'' = Some (JStr ''R1'')"
  "stype (storage logged_in) = LocalStorage"
  by (simp_all add: logged_in_def setTokens_def scheduleRefreshCheck_def clearRefreshTimer_def
      saveToStorage_def fresh_manager_def getTokenExpirationInfo_def parseJWT_opaque Let_def
      storage_set_def empty_storage_def js_string_def)

theorem refresh_failure_clears_tokens_witness:
  "entries (storage (tm logged_in_world)) ''refreshToken'' = Some (JStr ''R1'')
   \<and> snd (performTokenRefresh demo_host unreachable logged_in_world) = Inl FetchRejected
   \<and> accessToken (tm (fst (performTokenRefresh demo_host unreachable logged_in_world))) = JNull
   \<and> refreshToken (tm (fst (performTokenRefresh demo_host unreachable logged_in_world))) = JNull
   \<and> entries (storage (tm (fst (performTokenRefresh demo_host unreachable logged_in_world))))
        ''refreshToken'' = None"
  using refresh_failure_clears_tokens [of unreachable logged_in_world demo_host]
  by (simp add: unreachable_def logged_in_world_def logged_in_storage)

lemma scheduleRefreshCheck_fields:
  "accessToken (scheduleRefreshCheck h now s) = accessToken s"
  "refreshToken (scheduleRefreshCheck h now s) = refreshToken s"
  "sessionData (scheduleRefreshCheck h now s) = sessionData s"
  "user (scheduleRefreshCheck h now s) = user s"
  "storage (scheduleRefreshCheck h now s) = storage s"
  "refreshBuffer (scheduleRefreshCheck h now s) = refreshBuffer s"
  by (simp_all add: scheduleRefreshCheck_def Let_def clearRefreshTimer_fields
      split: option.splits)

lemma saveToStorage_fields:
  "accessToken (saveToStorage h s) = accessToken s"
  "refreshToken (saveToStorage h s) = refreshToken s"
  "sessionData (saveToStorage h s) = sessionData s"
  "user (saveToStorage h s) = user s"
  "refreshBuffer (saveToStorage h s) = refreshBuffer s"
  "refreshTimer (saveToStorage h s) = refreshTimer s"
  by (simp_all add: saveToStorage_def Let_def)

lemma getTokenExpirationInfo_token:
  "accessToken s = accessToken s' \<Longrightarrow>
   getTokenExpirationInfo h now s = getTokenExpirationInfo h now s'"
  by (simp add: getTokenExpirationInfo_def)

lemma scheduleRefreshCheck_timer:
  "refreshTimer (scheduleRefreshCheck h now s) =
     (if \<not> truthy (accessToken s) then None
      else (case getTokenExpirationInfo h now s of
              None \<Rightarrow> None
            | Some expInfo \<Rightarrow>
                if isExpired expInfo then None
                else Some (math_max 1000
                        (num_sub (num_sub (getTime (expiresAt expInfo)) (Some now))
                           (Some (refreshBuffer s))))))"
  using getTokenExpirationInfo_token[of "clearRefreshTimer s" s h now]
  by (simp add: scheduleRefreshCheck_def Let_def clearRefreshTimer_fields split: option.splits)

lemma parseJWT_Some_string:
  assumes "parseJWT h a = Some p"
  shows "truthy a"
  using assms by (cases a) (auto simp: parseJWT_def split: if_splits)

lemma expiration_of_numeric_exp:
  assumes "accessToken s = a" "parseJWT h a = Some payload"
    "get_prop payload ''exp'' = JNum ex" "ex \<noteq> 0"
  shows "\<exists>i. getTokenExpirationInfo h now s = Some i
           \<and> isExpired i = (ex \<le> now_seconds now)
           \<and> expiresAt i = new_Date (Some (ex * 1000))"
  using assms has_num_claim_truthy[OF assms(3)] parseJWT_Some_string[OF assms(2)]
  by (simp add: getTokenExpirationInfo_def Let_def to_number_def num_sub_def num_le_def
      num_times_def)

lemma expiration_of_zero_exp:
  assumes "accessToken s = a" "parseJWT h a = Some payload" "get_prop payload ''exp'' = JNum 0"
  shows "getTokenExpirationInfo h now s = None"
  using assms by (simp add: getTokenExpirationInfo_def)

lemma expiration_unparsed:
  assumes "accessToken s = a" "parseJWT h a = None"
  shows "getTokenExpirationInfo h now s = None"
  using assms by (simp add: getTokenExpirationInfo_def)

lemma setTokens_timer:
  "refreshTimer (setTokens h now s a r sd u) =
     refreshTimer (scheduleRefreshCheck h now (s\<lparr>accessToken := a\<rparr>))"
  using getTokenExpirationInfo_token[of "saveToStorage h
         (s\<lparr>accessToken := a, refreshToken := r, sessionData := sd, user := u\<rparr>)"
         "s\<lparr>accessToken := a\<rparr>" h now]
  by (simp add: setTokens_def scheduleRefreshCheck_timer saveToStorage_fields
      split: option.splits)

lemma new_TokenManager_buffer:
  assumes "new_TokenManager h now st = Inr s0"
  shows "refreshBuffer s0 = 300000"
  using assms
  by (auto simp: new_TokenManager_def loadTokensFromStorage_def Let_def
      scheduleRefreshCheck_fields split: sum.splits)

lemma expiration_without_exp:
  assumes "accessToken s = a" "parseJWT h a = Some payload"
    "\<not> truthy (get_prop payload ''exp'')"
  shows "getTokenExpirationInfo h now s = None"
  using assms by (simp add: getTokenExpirationInfo_def)

text \<open>
  C4, as amended. \<open>setTokens\<close> with an access token whose decoded payload has a
  numeric \<open>exp\<close>: if \<open>exp\<close> is not 0 and later than now, a timer is requested,
  with the delay \<open>max(1000, exp * 1000 - now - refreshBuffer)\<close> milliseconds when
  \<open>exp * 1000\<close> is a time a \<open>Date\<close> can hold (at most 8.64e15 ms in absolute
  value) and with the delay NaN beyond that; so a refresh time already past gives the
  minimum delay of one second. No timer is requested when the token is expired, when its
  payload has no truthy \<open>exp\<close> (absent or 0), and when the token cannot be decoded.
  \<open>setTokens\<close> keeps \<open>refreshBuffer\<close>, which the constructor sets to five minutes.
\<close>

theorem setTokens_schedules_refresh:
  "(\<forall>payload ex. parseJWT h a = Some payload \<and> get_prop payload ''exp'' = JNum ex
      \<longrightarrow> refreshTimer (setTokens h now_ms s a r sd u) =
            (if ex = 0 \<or> ex \<le> now_seconds now_ms then None
             else Some (if \<bar>ex * 1000\<bar> \<le> 8640000000000000
                        then Some (max 1000 (ex * 1000 - now_ms - refreshBuffer s))
                        else None)))
   \<and> (\<forall>payload. parseJWT h a = Some payload \<and> \<not> truthy (get_prop payload ''exp'')
      \<longrightarrow> refreshTimer (setTokens h now_ms s a r sd u) = None)
   \<and> (parseJWT h a = None \<longrightarrow> refreshTimer (setTokens h now_ms s a r sd u) = None)
   \<and> refreshBuffer (setTokens h now_ms s a r sd u) = refreshBuffer s
   \<and> (\<forall>st s0. new_TokenManager h now_ms st = Inr s0 \<longrightarrow> refreshBuffer s0 = 5 * 60 * 1000)"
proof (intro conjI allI impI)
  fix payload ex
  assume a: "parseJWT h a = Some payload \<and> get_prop payload ''exp'' = JNum ex"
  let ?s = "s\<lparr>accessToken := a\<rparr>"
  have tr: "truthy (accessToken ?s)" using a parseJWT_Some_string[of h a payload] by simp
  show "refreshTimer (setTokens h now_ms s a r sd u) =
            (if ex = 0 \<or> ex \<le> now_seconds now_ms then None
             else Some (if \<bar>ex * 1000\<bar> \<le> 8640000000000000
                        then Some (max 1000 (ex * 1000 - now_ms - refreshBuffer s))
                        else None))"
  proof (cases "ex = 0")
    case True
    then have "getTokenExpirationInfo h now_ms ?s = None"
      using a expiration_of_zero_exp[of ?s a h payload now_ms] by simp
    then show ?thesis using True by (simp add: setTokens_timer scheduleRefreshCheck_timer)
  next
    case False
    then obtain i where i: "getTokenExpirationInfo h now_ms ?s = Some i"
        "isExpired i = (ex \<le> now_seconds now_ms)" "expiresAt i = new_Date (Some (ex * 1000))"
      using a expiration_of_numeric_exp[of ?s a h payload ex now_ms] by auto
    show ?thesis
    proof (cases "ex \<le> now_seconds now_ms")
      case True
      then show ?thesis using i tr by (simp add: setTokens_timer scheduleRefreshCheck_timer)
    next
      case late: False
      show ?thesis
      proof (cases "\<bar>ex * 1000\<bar> \<le> 8640000000000000")
        case True
        then have "getTime (expiresAt i) = Some (ex * 1000)"
          by (simp add: i new_Date_def getTime_def)
        then show ?thesis using i tr late True \<open>ex \<noteq> 0\<close>
          by (simp add: setTokens_timer scheduleRefreshCheck_timer math_max_def num_sub_def)
      next
        case False
        then have "getTime (expiresAt i) = None"
          by (simp add: i new_Date_def getTime_def)
        then show ?thesis using i tr late False \<open>ex \<noteq> 0\<close>
          by (simp add: setTokens_timer scheduleRefreshCheck_timer math_max_def num_sub_def)
      qed
    qed
  qed
next
  fix payload
  assume "parseJWT h a = Some payload \<and> \<not> truthy (get_prop payload ''exp'')"
  then have "getTokenExpirationInfo h now_ms (s\<lparr>accessToken := a\<rparr>) = None"
    using expiration_without_exp[of "s\<lparr>accessToken := a\<rparr>" a h payload now_ms] by simp
  then show "refreshTimer (setTokens h now_ms s a r sd u) = None"
    by (simp add: setTokens_timer scheduleRefreshCheck_timer)
next
  assume "parseJWT h a = None"
  then have "getTokenExpirationInfo h now_ms (s\<lparr>accessToken := a\<rparr>) = None"
    using expiration_unparsed[of "s\<lparr>accessToken := a\<rparr>" a h now_ms] by simp
  then show "refreshTimer (setTokens h now_ms s a r sd u) = None"
    by (simp add: setTokens_timer scheduleRefreshCheck_timer)
next
  show "refreshBuffer (setTokens h now_ms s a r sd u) = refreshBuffer s"
    by (simp add: setTokens_def scheduleRefreshCheck_fields saveToStorage_fields)
next
  fix st s0
  assume "new_TokenManager h now_ms st = Inr s0"
  then show "refreshBuffer s0 = 5 * 60 * 1000"
    using new_TokenManager_buffer by simp
qed

theorem setTokens_schedules_refresh_witness:
  "refreshBuffer fresh_manager = 300000
   \<and> refreshTimer (setTokens demo_host 1000000 fresh_manager (JStr token_10s) JNull JNull JNull)
       = Some (Some 1000)
   \<and> refreshTimer (setTokens demo_host 1000000 fresh_manager (JStr token_soon) JNull JNull JNull)
       = Some (Some 1000)
   \<and> refreshTimer (setTokens demo_host 1000000 fresh_manager (JStr token_expired) JNull JNull JNull)
       = None
   \<and> refreshTimer (setTokens demo_host 1000000 fresh_manager (JStr token_exp0) JNull JNull JNull)
       = None
   \<and> refreshTimer (setTokens demo_host 400000 fresh_manager (JStr token_soon) JNull JNull JNull)
       = Some (Some 400000)
   \<and> refreshTimer (setTokens demo_host 1000000 fresh_manager (JStr ''A1'') JNull JNull JNull)
       = None"
  using setTokens_schedules_refresh
          [of demo_host "JStr token_10s" 1000000 fresh_manager JNull JNull JNull]
        setTokens_schedules_refresh
          [of demo_host "JStr token_soon" 1000000 fresh_manager JNull JNull JNull]
        setTokens_schedules_refresh
          [of demo_host "JStr token_expired" 1000000 fresh_manager JNull JNull JNull]
        setTokens_schedules_refresh
          [of demo_host "JStr token_exp0" 1000000 fresh_manager JNull JNull JNull]
        setTokens_schedules_refresh
          [of demo_host "JStr token_soon" 400000 fresh_manager JNull JNull JNull]
        setTokens_schedules_refresh
          [of demo_host "JStr ''A1''" 1000000 fresh_manager JNull JNull JNull]
  by (simp add: parse_10s parse_soon parse_expired parse_exp0 parseJWT_opaque get_prop_def
      now_seconds_def fresh_manager_def)

text \<open>
  C4 as stated fails: a token that expires in 10 seconds gets a timer of 1000 ms, not an
  immediate refresh, and the opaque token 'A1' gets no timer at all.
\<close>

theorem setTokens_timer_counterexample:
  "refreshTimer (setTokens demo_host 1000000 fresh_manager (JStr token_10s) JNull JNull JNull)
     = Some (Some 1000)
   \<and> refreshTimer (setTokens demo_host 1000000 fresh_manager (JStr ''A1'') (JStr ''R1'') JNull JNull)
     = None"
proof -
  have t: "truthy (JStr token_10s)"
    using parse_10s by (rule parseJWT_Some_string)
  have b: "refreshBuffer fresh_manager = 300000"
    by (simp add: fresh_manager_def)
  have i: "getTokenExpirationInfo demo_host 1000000
             (fresh_manager\<lparr>accessToken := JStr token_10s\<rparr>) =
           Some \<lparr> expiresAt = JDate (Some 1010000), issuedAt = JDate None,
                  timeUntilExpiry = Some 10, timeSinceIssued = None, isExpired = False \<rparr>"
    using t by (simp add: getTokenExpirationInfo_def parse_10s get_prop_def to_number_def
        num_sub_def num_le_def num_times_def new_Date_def now_seconds_def Let_def)
  have "refreshTimer (setTokens demo_host 1000000 fresh_manager (JStr token_10s) JNull JNull JNull)
          = Some (Some 1000)"
    using t b by (simp add: setTokens_timer scheduleRefreshCheck_timer i getTime_def
        math_max_def num_sub_def)
  moreover have "refreshTimer (setTokens demo_host 1000000 fresh_manager (JStr ''A1'')
                   (JStr ''R1'') JNull JNull) = None"
    by (simp add: setTokens_timer scheduleRefreshCheck_timer getTokenExpirationInfo_def
        parseJWT_opaque)
  ultimately show ?thesis by simp
qed

lemma storage_set_entries:
  "entries (storage_set h st key v) k =
     (if k = key
      then Some (case stype st of LocalStorage \<Rightarrow> JStr (js_string h v) | Memory \<Rightarrow> v)
      else entries st k)"
  "stype (storage_set h st key v) = stype st"
  by (simp_all add: storage_set_def split: storage_type.splits)

lemma js_string_JStr: "js_string h (JStr x) = x"
  by (simp add: js_string_def)

lemma saveToStorage_entries:
  "entries (storage (saveToStorage h s)) k =
     (if k = ''userData'' \<and> truthy (user s) then Some (JStr (json_stringify h (user s)))
      else if k = ''sessionData'' \<and> truthy (sessionData s)
        then Some (JStr (json_stringify h (sessionData s)))
      else if k = ''refreshToken'' \<and> truthy (refreshToken s)
        then Some (case stype (storage s) of
                     LocalStorage \<Rightarrow> JStr (js_string h (refreshToken s))
                   | Memory \<Rightarrow> refreshToken s)
      else if k = ''accessToken'' \<and> truthy (accessToken s)
        then Some (case stype (storage s) of
                     LocalStorage \<Rightarrow> JStr (js_string h (accessToken s))
                   | Memory \<Rightarrow> accessToken s)
      else entries (storage s) k)"
  by (simp add: saveToStorage_def Let_def storage_set_entries js_string_JStr
      split: storage_type.splits)

lemma saveToStorage_stype: "stype (storage (saveToStorage h s)) = stype (storage s)"
  by (simp add: saveToStorage_def Let_def storage_set_entries)

text \<open>
  C5, as amended. \<open>setTokens(access, refresh, metadata, user)\<close> replaces the four
  fields in memory by the given values, and writes to storage each given value that is
  truthy (the tokens as they are, the session and the user as JSON text); the storage
  entry of a value that is absent or otherwise falsy stays as it was, and no other entry
  changes.
\<close>

theorem setTokens_replaces_and_persists:
  "accessToken (setTokens h now_ms s a r sd u) = a
   \<and> refreshToken (setTokens h now_ms s a r sd u) = r
   \<and> sessionData (setTokens h now_ms s a r sd u) = sd
   \<and> user (setTokens h now_ms s a r sd u) = u
   \<and> entries (storage (setTokens h now_ms s a r sd u)) ''accessToken'' =
       (if truthy a
        then Some (case stype (storage s) of LocalStorage \<Rightarrow> JStr (js_string h a) | Memory \<Rightarrow> a)
        else entries (storage s) ''accessToken'')
   \<and> entries (storage (setTokens h now_ms s a r sd u)) ''refreshToken'' =
       (if truthy r
        then Some (case stype (storage s) of LocalStorage \<Rightarrow> JStr (js_string h r) | Memory \<Rightarrow> r)
        else entries (storage s) ''refreshToken'')
   \<and> entries (storage (setTokens h now_ms s a r sd u)) ''sessionData'' =
       (if truthy sd then Some (JStr (json_stringify h sd))
        else entries (storage s) ''sessionData'')
   \<and> entries (storage (setTokens h now_ms s a r sd u)) ''userData'' =
       (if truthy u then Some (JStr (json_stringify h u))
        else entries (storage s) ''userData'')
   \<and> (\<forall>k. k \<notin> set [''accessToken'', ''refreshToken'', ''sessionData'', ''userData'']
         \<longrightarrow> entries (storage (setTokens h now_ms s a r sd u)) k = entries (storage s) k)"
  by (simp add: setTokens_def scheduleRefreshCheck_fields saveToStorage_fields
      saveToStorage_entries split: storage_type.splits)

theorem setTokens_replaces_and_persists_witness:
  "accessToken logged_in = JStr ''A1''
   \<and> entries (storage logged_in) ''accessToken'' = Some (JStr ''A1'')
   \<and> entries (storage logged_in) ''refreshToken'' = Some (JStr ''R1'')
   \<and> entries (storage logged_in) ''other'' = None"
  using setTokens_replaces_and_persists
     [of demo_host 1000000 fresh_manager "JStr ''A1''" "JStr ''R1''"
         "JObj [(''id'', JStr ''s1'')]" "JObj [(''id'', JNum 1), (''role'', JStr ''customer'')]"]
  by (simp add: logged_in_def fresh_manager_def empty_storage_def js_string_def)

text \<open>
  C5 as stated fails: after \<open>setTokens("A2", null, null, null)\<close> on the manager that
  holds 'A1' and 'R1', the refresh token is \<open>null\<close> in memory and still 'R1' in
  storage.
\<close>

theorem setTokens_absent_field_counterexample:
  "refreshToken (setTokens demo_host 1000000 logged_in (JStr ''A2'') JNull JNull JNull) = JNull
   \<and> storage_get (storage (setTokens demo_host 1000000 logged_in (JStr ''A2'') JNull JNull JNull))
        ''refreshToken'' = JStr ''R1''
   \<and> storage_get (storage (setTokens demo_host 1000000 logged_in (JStr ''A2'') JNull JNull JNull))
        ''accessToken'' = JStr ''A2''"
  by (simp add: setTokens_def scheduleRefreshCheck_fields saveToStorage_fields
      saveToStorage_entries saveToStorage_stype storage_get_def logged_in_storage js_string_def)

subsection \<open>PKCE\<close>

lemma b64_not_pad: "b64 i \<noteq> CHR ''=''"
proof -
  have "CHR ''='' \<notin> set b64chars" by (simp add: b64chars_def)
  moreover have "i mod 64 < length b64chars" by (simp add: b64chars_def)
  ultimately show ?thesis unfolding b64_def by (metis nth_mem)
qed

lemma arrayBufferToBase64_head:
  assumes "bs \<noteq> []"
  shows "\<exists>i cs. arrayBufferToBase64 bs = b64 i # cs"
  using assms by (cases bs rule: arrayBufferToBase64.cases) auto

lemma base64urlEncode_nonempty:
  assumes "bs \<noteq> []"
  shows "base64urlEncode bs \<noteq> []"
proof -
  obtain i cs where h: "arrayBufferToBase64 bs = b64 i # cs"
    using arrayBufferToBase64_head[OF assms] by blast
  show ?thesis using b64_not_pad[of i] by (simp add: base64urlEncode_def h)
qed

lemma valid_verifier_nonempty:
  assumes "v_valid (validateCodeVerifier v)"
  shows "v \<noteq> []"
  using assms by (auto simp: validateCodeVerifier_def)

text \<open>
  C6. For every verifier that \<open>validateCodeVerifier\<close> accepts (43 to 128 characters
  of the unreserved set) and each of the methods S256 and plain, the challenge is derived
  and \<open>verifyCodeChallenge\<close> accepts it with the verifier. For S256 a SHA-256
  implementation is reachable and gives its 32 bytes.
\<close>

theorem verify_accepts_derived_challenge:
  assumes valid: "v_valid (validateCodeVerifier v)"
    and known: "m = ''S256'' \<or> m = ''plain''"
    and digest: "m = ''S256'' \<longrightarrow> (\<exists>d. sha256 h (utf8_encode v) = Some d \<and> length d = 32)"
  shows "\<exists>c. generateCodeChallenge h v m = Inr c \<and> verifyCodeChallenge h v c m"
proof -
  have ne: "v \<noteq> []" using valid by (rule valid_verifier_nonempty)
  from known show ?thesis
  proof
    assume m: "m = ''S256''"
    then obtain d where d: "sha256 h (utf8_encode v) = Some d" "length d = 32"
      using digest by blast
    then have "d \<noteq> []" by auto
    then have c: "base64urlEncode d \<noteq> []" by (rule base64urlEncode_nonempty)
    have g: "generateCodeChallenge h v m = Inr (base64urlEncode d)"
      using ne m d by (simp add: generateCodeChallenge_def supportedMethods_def
          generateCodeChallengeS256_def)
    show ?thesis using g c ne by (simp add: verifyCodeChallenge_def)
  next
    assume m: "m = ''plain''"
    have g: "generateCodeChallenge h v m = Inr v"
      using ne m by (simp add: generateCodeChallenge_def supportedMethods_def
          generateCodeChallengePlain_def)
    show ?thesis using g ne by (simp add: verifyCodeChallenge_def)
  qed
qed

lemma rfc_verifier_valid: "v_valid (validateCodeVerifier rfc_verifier)"
  by (simp add: validateCodeVerifier_def rfc_verifier_def validChars_def unreserved_def Let_def)

lemma rfc_challenge:
  "generateCodeChallenge demo_host rfc_verifier ''S256''
     = Inr ''E9Melhoa2OwvFrEMTJguCHaoeK1t8URWbuGJSstw-cM''"
  by (simp add: generateCodeChallenge_def supportedMethods_def generateCodeChallengeS256_def
      demo_host_def base64urlEncode_def rfc_digest_def b64_def b64chars_def rfc_verifier_def)

theorem verify_accepts_derived_challenge_witness:
  "v_valid (validateCodeVerifier rfc_verifier)
   \<and> generateCodeChallenge demo_host rfc_verifier ''S256''
       = Inr ''E9Melhoa2OwvFrEMTJguCHaoeK1t8URWbuGJSstw-cM''
   \<and> verifyCodeChallenge demo_host rfc_verifier
        ''E9Melhoa2OwvFrEMTJguCHaoeK1t8URWbuGJSstw-cM'' ''S256''
   \<and> verifyCodeChallenge demo_host rfc_verifier rfc_verifier ''plain''"
  using verify_accepts_derived_challenge [of rfc_verifier "''S256''" demo_host]
    verify_accepts_derived_challenge [of rfc_verifier "''plain''" demo_host]
    rfc_verifier_valid rfc_challenge
  by (simp add: demo_host_def rfc_digest_def generateCodeChallenge_def supportedMethods_def
      generateCodeChallengePlain_def rfc_verifier_def)

lemma charset_length: "length charset = 66"
  by (simp add: charset_def)

lemma charset_distinct: "distinct charset"
  by (simp add: charset_def)

lemma charset_unreserved: "c \<in> set charset \<Longrightarrow> unreserved c"
  by (auto simp: charset_def unreserved_def)

lemma charset_at_in_range: "i < 66 \<Longrightarrow> charset_at i = [charset ! i]"
  by (simp add: charset_at_def charset_length)

lemma concat_charset_at:
  assumes "\<forall>i \<in> set is. f i < 66"
  shows "concat (map (\<lambda>i. charset_at (f i)) is) = map (\<lambda>i. charset ! f i) is"
  using assms by (induction "is") (simp_all add: charset_at_in_range)

lemma web_crypto_verifier:
  assumes "43 \<le> len" "len \<le> 128" "web_crypto r = Some bytes"
  shows "generateCodeVerifier r len =
           Inr (map (\<lambda>i. charset ! (unat (bytes i) mod 66)) [0..<nat len])"
  using assms concat_charset_at[of "[0..<nat len]" "\<lambda>i. unat (bytes i) mod 66"]
  by (simp add: generateCodeVerifier_def charset_length)

lemma fallback_verifier:
  assumes "43 \<le> len" "len \<le> 128" "web_crypto r = None"
    "\<forall>i < nat len. math_random_index r i < 66"
  shows "generateCodeVerifier r len =
           Inr (map (\<lambda>i. charset ! math_random_index r i) [0..<nat len])"
  using assms concat_charset_at[of "[0..<nat len]" "math_random_index r"]
  by (simp add: generateCodeVerifier_def generateCodeVerifierFallback_def)

lemma map_charset_unreserved:
  assumes "\<forall>i \<in> set is. f i < 66"
  shows "list_all unreserved (map (\<lambda>i. charset ! f i) is)"
  using assms by (auto simp: list_all_iff charset_length intro!: charset_unreserved nth_mem)

text \<open>
  C7, as amended. \<open>generateCodeVerifier(length)\<close> throws for every length outside
  43 to 128. For a length inside, it returns a string of that length over the unreserved
  characters, an alphabet of 66 distinct characters: with Web Crypto, character i is
  \<open>charset[byte i mod 66]\<close>; in the fallback it is \<open>charset[k]\<close> for the index
  \<open>k\<close> below 66 that \<open>Math.floor(Math.random() * 66)\<close> gives.
\<close>

theorem generateCodeVerifier_result:
  "(len < 43 \<or> len > 128 \<longrightarrow> generateCodeVerifier r len = Inl VerifierLengthOutOfRange)
   \<and> (\<forall>bytes. 43 \<le> len \<and> len \<le> 128 \<and> web_crypto r = Some bytes
         \<longrightarrow> generateCodeVerifier r len =
               Inr (map (\<lambda>i. charset ! (unat (bytes i) mod 66)) [0..<nat len]))
   \<and> (43 \<le> len \<and> len \<le> 128 \<and> web_crypto r = None
        \<and> (\<forall>i < nat len. math_random_index r i < 66)
         \<longrightarrow> generateCodeVerifier r len =
               Inr (map (\<lambda>i. charset ! math_random_index r i) [0..<nat len]))
   \<and> (\<forall>v. 43 \<le> len \<and> len \<le> 128 \<and> generateCodeVerifier r len = Inr v
            \<and> (web_crypto r = None \<longrightarrow> (\<forall>i < nat len. math_random_index r i < 66))
         \<longrightarrow> int (length v) = len \<and> list_all unreserved v)
   \<and> length charset = 66 \<and> distinct charset"
proof (intro conjI allI impI)
  show "len < 43 \<or> len > 128 \<Longrightarrow> generateCodeVerifier r len = Inl VerifierLengthOutOfRange"
    by (auto simp: generateCodeVerifier_def)
next
  fix bytes
  assume "43 \<le> len \<and> len \<le> 128 \<and> web_crypto r = Some bytes"
  then show "generateCodeVerifier r len =
               Inr (map (\<lambda>i. charset ! (unat (bytes i) mod 66)) [0..<nat len])"
    using web_crypto_verifier by blast
next
  assume "43 \<le> len \<and> len \<le> 128 \<and> web_crypto r = None
        \<and> (\<forall>i < nat len. math_random_index r i < 66)"
  then show "generateCodeVerifier r len =
               Inr (map (\<lambda>i. charset ! math_random_index r i) [0..<nat len])"
    using fallback_verifier by blast
next
  fix v
  assume a: "43 \<le> len \<and> len \<le> 128 \<and> generateCodeVerifier r len = Inr v
            \<and> (web_crypto r = None \<longrightarrow> (\<forall>i < nat len. math_random_index r i < 66))"
  have "int (length v) = len \<and> list_all unreserved v"
  proof (cases "web_crypto r")
    case None
    then have "v = map (\<lambda>i. charset ! math_random_index r i) [0..<nat len]"
      using a fallback_verifier[of len r] by auto
    then show ?thesis
      using a None map_charset_unreserved[of "[0..<nat len]" "math_random_index r"] by auto
  next
    case (Some bytes)
    then have "v = map (\<lambda>i. charset ! (unat (bytes i) mod 66)) [0..<nat len]"
      using a web_crypto_verifier[of len r bytes] by auto
    then show ?thesis
      using a map_charset_unreserved[of "[0..<nat len]" "\<lambda>i. unat (bytes i) mod 66"] by auto
  qed
  then show "int (length v) = len" and "list_all unreserved v" by simp_all
next
  show "length charset = 66" by (rule charset_length)
next
  show "distinct charset" by (rule charset_distinct)
qed

theorem generateCodeVerifier_result_witness:
  "generateCodeVerifier \<lparr> web_crypto = Some (\<lambda>i. 0), math_random_index = (\<lambda>i. 0) \<rparr> 43
     = Inr (replicate 43 CHR ''A'')
   \<and> generateCodeVerifier \<lparr> web_crypto = Some (\<lambda>i. 0), math_random_index = (\<lambda>i. 0) \<rparr> 42
     = Inl VerifierLengthOutOfRange
   \<and> generateCodeVerifier \<lparr> web_crypto = Some (\<lambda>i. 0), math_random_index = (\<lambda>i. 0) \<rparr> 129
     = Inl VerifierLengthOutOfRange
   \<and> generateCodeVerifier \<lparr> web_crypto = None, math_random_index = (\<lambda>i. 1) \<rparr> 43
     = Inr (replicate 43 CHR ''B'')"
  using generateCodeVerifier_result
          [of 43 "\<lparr> web_crypto = Some (\<lambda>i. 0), math_random_index = (\<lambda>i. 0) \<rparr>"]
        generateCodeVerifier_result
          [of 42 "\<lparr> web_crypto = Some (\<lambda>i. 0), math_random_index = (\<lambda>i. 0) \<rparr>"]
        generateCodeVerifier_result
          [of 129 "\<lparr> web_crypto = Some (\<lambda>i. 0), math_random_index = (\<lambda>i. 0) \<rparr>"]
        generateCodeVerifier_result
          [of 43 "\<lparr> web_crypto = None, math_random_index = (\<lambda>i. 1) \<rparr>"]
  by (simp add: map_replicate_const charset_def)

text \<open>
  C7 as stated fails: the alphabet has 66 characters, not 64. The bytes 1 and 65, equal
  modulo 64, give different characters, and byte 65 gives the 66th character.
\<close>

theorem charset_alphabet_counterexample:
  "length charset = 66
   \<and> generateCodeVerifier \<lparr> web_crypto = Some (\<lambda>i. 65), math_random_index = (\<lambda>i. 0) \<rparr> 43
       = Inr (replicate 43 CHR ''~'')
   \<and> generateCodeVerifier \<lparr> web_crypto = Some (\<lambda>i. 1), math_random_index = (\<lambda>i. 0) \<rparr> 43
       = Inr (replicate 43 CHR ''B'')"
  using web_crypto_verifier[of 43 "\<lparr> web_crypto = Some (\<lambda>i. 65), math_random_index = (\<lambda>i. 0) \<rparr>"
          "\<lambda>i. 65"]
        web_crypto_verifier[of 43 "\<lparr> web_crypto = Some (\<lambda>i. 1), math_random_index = (\<lambda>i. 0) \<rparr>"
          "\<lambda>i. 1"]
  by (simp add: map_replicate_const charset_def)

end
